theory Spec2Isabelle
  imports Complex_Main "HOL-Library.Sublist"
begin

text \<open>
  A shallow embedding of the product-data collection service: the response
  normalizer (the product and review schemas), the data processor, the usage
  limiter, the collector, the job scheduler and the collection worker, each function
  under the name it has in the source. The relational store is a record of tables,
  every table the list of its rows; a function that writes takes the store and
  returns the new one; a function that can throw returns a sum whose left side is
  the thrown error.
\<close>

section \<open>JavaScript values used by the collection pipeline\<close>

text \<open>
  Strings are lists of code units below 256 (Latin-1), so the currency signs
  U+00A3 and U+00A5 and the no-break space U+00A0 are characters of the model;
  code units above 255 (the euro and rupee signs, the Unicode spaces) are outside
  its alphabet. Numbers are exact rationals together with the three special
  values of IEEE doubles; binary rounding is not modelled.
\<close>

datatype jsnum = NaN | NegInf | Fin rat | PosInf

fun js_lt :: "jsnum \<Rightarrow> jsnum \<Rightarrow> bool" where
  "js_lt NaN _ = False"
| "js_lt _ NaN = False"
| "js_lt _ NegInf = False"
| "js_lt NegInf _ = True"
| "js_lt PosInf _ = False"
| "js_lt (Fin a) PosInf = True"
| "js_lt (Fin a) (Fin b) = (a < b)"

definition js_gt :: "jsnum \<Rightarrow> jsnum \<Rightarrow> bool" where
  "js_gt a b = js_lt b a"

definition js_le :: "jsnum \<Rightarrow> jsnum \<Rightarrow> bool" where
  "js_le a b = (a \<noteq> NaN \<and> b \<noteq> NaN \<and> \<not> js_lt b a)"

definition isNaN :: "jsnum \<Rightarrow> bool" where
  "isNaN n = (n = NaN)"

text \<open>\<^verbatim>\<open>Math.min\<close> and \<^verbatim>\<open>Math.max\<close> on two arguments: NaN is contagious.\<close>

definition Math_min :: "jsnum \<Rightarrow> jsnum \<Rightarrow> jsnum" where
  "Math_min a b = (if a = NaN \<or> b = NaN then NaN else if js_lt b a then b else a)"

definition Math_max :: "jsnum \<Rightarrow> jsnum \<Rightarrow> jsnum" where
  "Math_max a b = (if a = NaN \<or> b = NaN then NaN else if js_lt a b then b else a)"

text \<open>Truthiness of the value kinds the code tests with \<^verbatim>\<open>!\<close>, \<^verbatim>\<open>||\<close> and \<^verbatim>\<open>&&\<close>.\<close>

definition truthy_num :: "jsnum \<Rightarrow> bool" where
  "truthy_num n = (n \<noteq> NaN \<and> n \<noteq> Fin 0)"

definition truthy_str :: "string \<Rightarrow> bool" where
  "truthy_str s = (s \<noteq> [])"

text \<open>\<^verbatim>\<open>a || b\<close> where \<^verbatim>\<open>a\<close> is an optional string.\<close>

definition str_or :: "string option \<Rightarrow> string option \<Rightarrow> string option" where
  "str_or a b = (case a of Some s \<Rightarrow> (if truthy_str s then Some s else b) | None \<Rightarrow> b)"

definition str_or_else :: "string option \<Rightarrow> string \<Rightarrow> string" where
  "str_or_else a d = (case a of Some s \<Rightarrow> (if truthy_str s then s else d) | None \<Rightarrow> d)"

subsection \<open>Strings\<close>

definition isSpace :: "char \<Rightarrow> bool" where
  "isSpace c = ((of_char c :: nat) \<in> set [9, 10, 11, 12, 13, 32, 160])"

definition trim :: "string \<Rightarrow> string" where
  "trim s = rev (dropWhile isSpace (rev (dropWhile isSpace s)))"

fun str_includes :: "string \<Rightarrow> string \<Rightarrow> bool" where
  "str_includes [] sub = (sub = [])"
| "str_includes (c # cs) sub = (prefix sub (c # cs) \<or> str_includes cs sub)"

definition isDigit :: "char \<Rightarrow> bool" where
  "isDigit c = (48 \<le> (of_char c :: nat) \<and> (of_char c :: nat) \<le> 57)"

definition digitVal :: "char \<Rightarrow> nat" where
  "digitVal c = of_char c - 48"

definition digitsVal :: "string \<Rightarrow> nat" where
  "digitsVal ds = foldl (\<lambda>acc c. 10 * acc + digitVal c) 0 ds"

text \<open>An optional sign in front of a numeral: the factor and the rest.\<close>

fun takeSign :: "string \<Rightarrow> int \<times> string" where
  "takeSign [] = (1, [])"
| "takeSign (c # cs) =
     (if c = CHR ''+'' then (1, cs) else if c = CHR ''-'' then (-1, cs) else (1, c # cs))"

definition pow10 :: "int \<Rightarrow> rat" where
  "pow10 e = (if 0 \<le> e then 10 ^ nat e else 1 / 10 ^ nat (- e))"

text \<open>
  The exponent part of a decimal literal is read only when it is complete
  (\<^verbatim>\<open>e\<close> or \<^verbatim>\<open>E\<close>, an optional sign, at least one digit).
\<close>

definition exponentPart :: "string \<Rightarrow> int" where
  "exponentPart r =
     (case r of
        [] \<Rightarrow> 0
      | c # cs \<Rightarrow>
          if c = CHR ''e'' \<or> c = CHR ''E''
          then (let (sg, r') = takeSign cs; ds = takeWhile isDigit r'
                in if ds = [] then 0 else sg * int (digitsVal ds))
          else 0)"

text \<open>
  \<^verbatim>\<open>parseFloat\<close>: skip leading white space, then read the longest prefix that is a
  decimal literal (or \<^verbatim>\<open>Infinity\<close>); NaN when there is none. The value of the
  literal is kept as an exact rational: it is not rounded to a double, and a literal
  beyond the range of a double stays finite.
\<close>

definition parseFloat :: "string \<Rightarrow> jsnum" where
  "parseFloat s =
     (let (sg, s2) = takeSign (dropWhile isSpace s)
      in if prefix ''Infinity'' s2 then (if sg = 1 then PosInf else NegInf)
         else
           let ip = takeWhile isDigit s2;
               r1 = dropWhile isDigit s2;
               (fp, r2) = (case r1 of
                             [] \<Rightarrow> ([], r1)
                           | c # cs \<Rightarrow> if c = CHR ''.''
                                       then (takeWhile isDigit cs, dropWhile isDigit cs)
                                       else ([], r1))
           in if ip = [] \<and> fp = [] then NaN
              else Fin (of_int sg
                        * (of_nat (digitsVal ip) + of_nat (digitsVal fp) / 10 ^ length fp)
                        * pow10 (exponentPart r2)))"

section \<open>Response normalizer: the product schema\<close>

datatype str_or_num = Str string | Num rat

text \<open>
  \<^verbatim>\<open>parsePriceString\<close>: a number is returned as it is; a string loses its currency
  signs, commas and white space and goes through \<^verbatim>\<open>parseFloat\<close>; NaN becomes
  \<^verbatim>\<open>undefined\<close>.
\<close>

definition isPriceJunk :: "char \<Rightarrow> bool" where
  "isPriceJunk c =
     (c = CHR ''$'' \<or> c = CHR '','' \<or> (of_char c :: nat) = 163 \<or> (of_char c :: nat) = 165
      \<or> isSpace c)"

definition parsePriceString :: "str_or_num \<Rightarrow> jsnum option" where
  "parsePriceString price =
     (case price of
        Num n \<Rightarrow> Some (Fin n)
      | Str s \<Rightarrow>
          (let cleaned = filter (\<lambda>c. \<not> isPriceJunk c) s;
               parsed = parseFloat cleaned
           in if isNaN parsed then None else Some parsed))"

record price_shape =
  ps_current :: rat
  ps_original :: "rat option"
  ps_currency :: "string option"

datatype raw_price = PriceNum rat | PriceStr string | PriceObj price_shape

record rating_obj =
  rt_value :: rat
  rt_count :: rat

datatype raw_rating = RatingNum rat | RatingObj rating_obj

record seller_obj =
  sl_name :: string
  sl_rating :: "rat option"

datatype raw_seller = SellerStr string | SellerObj seller_obj

text \<open>
  A value that has passed the field checks of \<^verbatim>\<open>rawProductSchema\<close>: every field is
  optional, unions are tagged, numbers are finite.
\<close>

record raw_product =
  r_asin :: "string option"
  r_title :: "string option"
  r_name :: "string option"
  r_productName :: "string option"
  r_description :: "string option"
  r_price :: "raw_price option"
  r_pricing :: "str_or_num option"
  r_list_price :: "str_or_num option"
  r_currentPrice :: "rat option"
  r_originalPrice :: "rat option"
  r_currency :: "string option"
  r_images :: "string list option"
  r_image :: "string option"
  r_imageUrls :: "string list option"
  r_rating :: "raw_rating option"
  r_averageRating :: "rat option"
  r_reviewCount :: "rat option"
  r_availability :: "string option"
  r_seller :: "raw_seller option"
  r_sellerName :: "string option"
  r_specifications :: "(string \<times> string) list option"
  r_features :: "string list option"
  r_brand :: "string option"
  r_category :: "string option"

record price_obj =
  current :: jsnum
  original :: "jsnum option"
  currency :: string

record product_data =
  asin :: string
  title :: string
  description :: "string option"
  price :: "price_obj option"
  images :: "string list option"
  rating :: "rating_obj option"
  availability :: "string option"
  seller :: "seller_obj option"
  specifications :: "(string \<times> string) list option"
  features :: "string list option"
  brand :: "string option"
  category :: "string option"

text \<open>The \<^verbatim>\<open>refine\<close> step: the ASIN is present and not blank.\<close>

definition hasValidAsinField :: "raw_product \<Rightarrow> bool" where
  "hasValidAsinField d =
     (case r_asin d of None \<Rightarrow> False | Some a \<Rightarrow> truthy_str a \<and> trim a \<noteq> [])"

text \<open>
  The current price and the original price found on the way, in the priority order
  \<^verbatim>\<open>pricing\<close>, \<^verbatim>\<open>price\<close>, \<^verbatim>\<open>currentPrice\<close>. The branch is chosen by the presence of the
  field; only the object-shaped \<^verbatim>\<open>price\<close> sets the original price here.
\<close>

definition extractCurrent :: "raw_product \<Rightarrow> jsnum option \<times> jsnum option" where
  "extractCurrent d =
     (case r_pricing d of
        Some p \<Rightarrow> (parsePriceString p, None)
      | None \<Rightarrow>
          (case r_price d of
             Some (PriceNum n) \<Rightarrow> (Some (Fin n), None)
           | Some (PriceStr s) \<Rightarrow> (parsePriceString (Str s), None)
           | Some (PriceObj obj) \<Rightarrow> (Some (Fin (ps_current obj)), map_option Fin (ps_original obj))
           | None \<Rightarrow>
               (case r_currentPrice d of
                  Some n \<Rightarrow> (Some (Fin n), None)
                | None \<Rightarrow> (None, None))))"

text \<open>\<^verbatim>\<open>if (!originalPrice)\<close>: an absent or zero original price gets the fallback fields.\<close>

definition extractOriginal :: "raw_product \<Rightarrow> jsnum option \<Rightarrow> jsnum option" where
  "extractOriginal d orig =
     (if (case orig of None \<Rightarrow> True | Some n \<Rightarrow> \<not> truthy_num n)
      then (case r_list_price d of
              Some lp \<Rightarrow> parsePriceString lp
            | None \<Rightarrow> (case r_originalPrice d of Some n \<Rightarrow> Some (Fin n) | None \<Rightarrow> orig))
      else orig)"

definition normalizePrice :: "raw_product \<Rightarrow> price_obj option" where
  "normalizePrice d =
     (let (currentPrice, orig0) = extractCurrent d;
          originalPrice = extractOriginal d orig0
      in case currentPrice of
           None \<Rightarrow> None
         | Some c \<Rightarrow>
             Some \<lparr>current = c, original = originalPrice,
                   currency = str_or_else (r_currency d) ''USD''\<rparr>)"

definition reviewCountOr0 :: "raw_product \<Rightarrow> rat" where
  "reviewCountOr0 d = (case r_reviewCount d of Some n \<Rightarrow> n | None \<Rightarrow> 0)"

definition normalizeRating :: "raw_product \<Rightarrow> rating_obj option" where
  "normalizeRating d =
     (case r_rating d of
        Some (RatingNum n) \<Rightarrow> Some \<lparr>rt_value = n, rt_count = reviewCountOr0 d\<rparr>
      | Some (RatingObj obj) \<Rightarrow> Some obj
      | None \<Rightarrow>
          (case r_averageRating d of
             Some a \<Rightarrow> Some \<lparr>rt_value = a, rt_count = reviewCountOr0 d\<rparr>
           | None \<Rightarrow> None))"

definition normalizeSeller :: "raw_product \<Rightarrow> seller_obj option" where
  "normalizeSeller d =
     (case r_seller d of
        Some (SellerStr s) \<Rightarrow> Some \<lparr>sl_name = s, sl_rating = None\<rparr>
      | Some (SellerObj obj) \<Rightarrow> Some obj
      | None \<Rightarrow>
          (case r_sellerName d of
             Some n \<Rightarrow> (if truthy_str n then Some \<lparr>sl_name = n, sl_rating = None\<rparr> else None)
           | None \<Rightarrow> None))"

definition normalizeImageList :: "raw_product \<Rightarrow> string list" where
  "normalizeImageList d =
     (case r_images d of
        Some xs \<Rightarrow> xs
      | None \<Rightarrow>
          (case r_imageUrls d of
             Some ys \<Rightarrow> ys
           | None \<Rightarrow>
               (case r_image d of
                  Some i \<Rightarrow> (if truthy_str i then [i] else [])
                | None \<Rightarrow> [])))"

text \<open>
  \<^verbatim>\<open>productDataSchema.safeParse\<close>: \<open>None\<close> is a failed validation, \<open>Some\<close> the
  transformed product.
\<close>

definition productDataSchema :: "raw_product \<Rightarrow> product_data option" where
  "productDataSchema d =
     (if \<not> hasValidAsinField d then None
      else Some \<lparr>asin = the (r_asin d),
                 title = str_or_else (str_or (str_or (r_title d) (r_name d)) (r_productName d))
                           ''Untitled Product'',
                 description = r_description d,
                 price = normalizePrice d,
                 images = Some (normalizeImageList d),
                 rating = normalizeRating d,
                 availability = r_availability d,
                 seller = normalizeSeller d,
                 specifications = r_specifications d,
                 features = r_features d,
                 brand = r_brand d,
                 category = r_category d\<rparr>)"

text \<open>A raw product with every field absent, to be filled in by record update.\<close>

definition emptyRaw :: raw_product where
  "emptyRaw =
     \<lparr>r_asin = None, r_title = None, r_name = None, r_productName = None,
      r_description = None, r_price = None, r_pricing = None, r_list_price = None,
      r_currentPrice = None, r_originalPrice = None, r_currency = None, r_images = None,
      r_image = None, r_imageUrls = None, r_rating = None, r_averageRating = None,
      r_reviewCount = None, r_availability = None, r_seller = None, r_sellerName = None,
      r_specifications = None, r_features = None, r_brand = None, r_category = None\<rparr>"

section \<open>Response normalizer: the review schema\<close>

record raw_review =
  rr_rating :: "str_or_num option"
  rr_title :: "string option"
  rr_text :: "string option"
  rr_author :: "string option"
  rr_date :: "string option"
  rr_verified :: "bool option"
  rr_helpfulCount :: "str_or_num option"

record review_data =
  rv_rating :: jsnum
  rv_title :: "string option"
  rv_text :: string
  rv_author :: string
  rv_date :: "string option"
  rv_verified :: "bool option"
  rv_helpfulCount :: "jsnum option"

text \<open>
  The \<^verbatim>\<open>rating\<close> field is a union: \<^verbatim>\<open>z.number().min(1).max(5)\<close> accepts a number only
  inside the range, and the string branch parses and clamps
  (\<^verbatim>\<open>isNaN(num) ? 0 : Math.max(1, Math.min(5, num))\<close>). \<open>None\<close> is a validation
  failure, which rejects the review.
\<close>

definition ratingField :: "str_or_num \<Rightarrow> jsnum option" where
  "ratingField v =
     (case v of
        Num n \<Rightarrow> (if 1 \<le> n \<and> n \<le> 5 then Some (Fin n) else None)
      | Str s \<Rightarrow>
          (let num = parseFloat s
           in Some (if isNaN num then Fin 0 else Math_max (Fin 1) (Math_min (Fin 5) num))))"

definition helpfulCountField :: "str_or_num option \<Rightarrow> jsnum option" where
  "helpfulCountField v =
     (case v of
        None \<Rightarrow> None
      | Some (Num n) \<Rightarrow> Some (Fin n)
      | Some (Str s) \<Rightarrow> (let num = parseFloat s in if isNaN num then None else Some num))"

definition reviewDataSchema :: "raw_review \<Rightarrow> review_data option" where
  "reviewDataSchema d =
     (case rr_rating d of
        None \<Rightarrow> None
      | Some v \<Rightarrow>
          (case ratingField v of
             None \<Rightarrow> None
           | Some r \<Rightarrow>
               Some \<lparr>rv_rating = r,
                     rv_title = str_or (rr_title d) None,
                     rv_text = str_or_else (rr_text d) [],
                     rv_author = str_or_else (rr_author d) ''Anonymous'',
                     rv_date = str_or (rr_date d) None,
                     rv_verified = Some (case rr_verified d of Some b \<Rightarrow> b | None \<Rightarrow> False),
                     rv_helpfulCount = helpfulCountField (rr_helpfulCount d)\<rparr>))"

text \<open>A raw review that carries nothing but a rating.\<close>

definition rawReviewWith :: "str_or_num \<Rightarrow> raw_review" where
  "rawReviewWith v =
     \<lparr>rr_rating = Some v, rr_title = None, rr_text = None, rr_author = None,
      rr_date = None, rr_verified = None, rr_helpfulCount = None\<rparr>"

record reviews_response =
  rs_reviews :: "review_data list"
  rs_averageRating :: jsnum
  rs_totalReviews :: jsnum

section \<open>Data processor\<close>

text \<open>
  What the runtime supplies: \<^verbatim>\<open>new Date(string)\<close> (\<open>None\<close> for an invalid date,
  otherwise the time stamp), whether \<^verbatim>\<open>new URL(string)\<close> succeeds, and the results of
  successive \<^verbatim>\<open>nanoid()\<close> calls.
\<close>

record runtime =
  newDate :: "string \<Rightarrow> int option"
  validUrl :: "string \<Rightarrow> bool"
  nanoid :: "nat \<Rightarrow> string"
  randomUUID :: "nat \<Rightarrow> string"

text \<open>\<^verbatim>\<open>text.trim().replace(/\s+/g, " ")\<close>.\<close>

function collapseSpaces :: "string \<Rightarrow> string" where
  "collapseSpaces [] = []"
| "collapseSpaces (c # cs) =
     (if isSpace c then CHR '' '' # collapseSpaces (dropWhile isSpace cs)
      else c # collapseSpaces cs)"
  by pat_completeness auto
termination
  by (relation "measure length") (auto simp: length_dropWhile_le less_Suc_eq_le)

definition normalizeText :: "string \<Rightarrow> string" where
  "normalizeText t = collapseSpaces (trim t)"

definition normalizeImages :: "runtime \<Rightarrow> string list \<Rightarrow> string list" where
  "normalizeImages rt imgs = filter (validUrl rt) imgs"

text \<open>
  \<^verbatim>\<open>toUpperCase\<close> on the Latin-1 alphabet: the sharp s becomes \<^verbatim>\<open>SS\<close>; the two letters
  whose capitals lie above code unit 255 (181 and 255) are left as they are, which
  keeps them outside \<^verbatim>\<open>[A-Z0-9]\<close> as their capitals are.
\<close>

definition upperChar :: "char \<Rightarrow> string" where
  "upperChar c =
     (let n = (of_char c :: nat)
      in if 97 \<le> n \<and> n \<le> 122 then [char_of (n - 32)]
         else if n = 223 then ''SS''
         else if 224 \<le> n \<and> n \<le> 254 \<and> n \<noteq> 247 then [char_of (n - 32)]
         else [c])"

definition toUpperCase :: "string \<Rightarrow> string" where
  "toUpperCase s = concat (map upperChar s)"

definition isUpperAlnum :: "char \<Rightarrow> bool" where
  "isUpperAlnum c = (isDigit c \<or> (65 \<le> (of_char c :: nat) \<and> (of_char c :: nat) \<le> 90))"

text \<open>The pattern \<^verbatim>\<open>/^B[A-Z0-9]{9}$/\<close>.\<close>

definition matchesAsinPattern :: "string \<Rightarrow> bool" where
  "matchesAsinPattern s =
     (case s of
        [] \<Rightarrow> False
      | c # cs \<Rightarrow> c = CHR ''B'' \<and> length cs = 9 \<and> list_all isUpperAlnum cs)"

definition isValidASIN :: "string option \<Rightarrow> bool" where
  "isValidASIN a =
     (case a of
        None \<Rightarrow> False
      | Some s \<Rightarrow> truthy_str s \<and> matchesAsinPattern (toUpperCase (trim s)))"

text \<open>Thrown values: an \<^verbatim>\<open>Error\<close> with the fields the worker inspects.\<close>

record err_cause =
  cause_message :: string
  cause_code :: "string option"
  cause_detail :: "string option"

record js_error =
  err_name :: string
  err_message :: string
  err_code :: "string option"
  err_cause :: "err_cause option"

definition mkError :: "string \<Rightarrow> js_error" where
  "mkError msg = \<lparr>err_name = ''Error'', err_message = msg, err_code = None, err_cause = None\<rparr>"

definition validateASIN :: "string \<Rightarrow> js_error + string" where
  "validateASIN a =
     (if \<not> truthy_str a then Inl (mkError ''Invalid ASIN: must be a non-empty string'')
      else let cleaned = toUpperCase (trim a)
           in if \<not> matchesAsinPattern cleaned then Inl (mkError (''Invalid ASIN format: '' @ a))
              else Inr cleaned)"

text \<open>\<^verbatim>\<open>validateRating\<close> throws outside the range; the only caller catches it.\<close>

definition validateRating :: "jsnum \<Rightarrow> jsnum option" where
  "validateRating r = (if js_lt r (Fin 1) \<or> js_gt r (Fin 5) then None else Some r)"

record processed_product =
  pp_id :: string
  pp_asin :: string
  pp_title :: string
  pp_description :: "string option"
  pp_brand :: "string option"
  pp_category :: "string option"
  pp_images :: "string list"
  pp_rating :: "jsnum option"
  pp_reviewCount :: jsnum
  pp_availability :: "string option"
  pp_currency :: string
  pp_specifications :: "(string \<times> string) list"
  pp_features :: "string list"

text \<open>\<^verbatim>\<open>x ? normalizeText(x) : undefined\<close> for an optional string.\<close>

definition normalizeOpt :: "string option \<Rightarrow> string option" where
  "normalizeOpt x =
     (case x of None \<Rightarrow> None | Some s \<Rightarrow> if truthy_str s then Some (normalizeText s) else None)"

text \<open>
  \<^verbatim>\<open>processProduct(data, productId?)\<close>: the identifier is the one passed in, or the
  \<open>k\<close>-th identifier of the runtime.
\<close>

definition processProduct ::
  "runtime \<Rightarrow> nat \<Rightarrow> product_data \<Rightarrow> string option \<Rightarrow> js_error + processed_product" where
  "processProduct rt k d productId =
     (case validateASIN (asin d) of
        Inl e \<Rightarrow> Inl e
      | Inr a \<Rightarrow>
          Inr \<lparr>pp_id = str_or_else productId (nanoid rt k),
               pp_asin = a,
               pp_title = normalizeText (title d),
               pp_description = normalizeOpt (description d),
               pp_brand = normalizeOpt (brand d),
               pp_category = normalizeOpt (category d),
               pp_images = normalizeImages rt (case images d of Some xs \<Rightarrow> xs | None \<Rightarrow> []),
               pp_rating = map_option (\<lambda>r. Fin (rt_value r)) (rating d),
               pp_reviewCount = (case rating d of Some r \<Rightarrow> Fin (rt_count r) | None \<Rightarrow> Fin 0),
               pp_availability = normalizeOpt (availability d),
               pp_currency = (case price d of
                                Some p \<Rightarrow> (if truthy_str (currency p) then currency p else ''USD'')
                              | None \<Rightarrow> ''USD''),
               pp_specifications = (case specifications d of Some m \<Rightarrow> m | None \<Rightarrow> []),
               pp_features = (case features d of Some f \<Rightarrow> f | None \<Rightarrow> [])\<rparr>)"

record processed_price =
  px_id :: string
  px_productId :: string
  px_price :: jsnum
  px_originalPrice :: "jsnum option"
  px_currency :: string
  px_availability :: "string option"
  px_sellerName :: "string option"
  px_sellerRating :: "rat option"
  px_primeEligible :: bool

text \<open>\<^verbatim>\<open>processPrice\<close>: \<open>None\<close> is the \<^verbatim>\<open>null\<close> returned when the product has no price.\<close>

definition processPrice :: "runtime \<Rightarrow> nat \<Rightarrow> product_data \<Rightarrow> string \<Rightarrow> processed_price option" where
  "processPrice rt k d productId =
     (case price d of
        None \<Rightarrow> None
      | Some p \<Rightarrow>
          Some \<lparr>px_id = nanoid rt k,
                px_productId = productId,
                px_price = current p,
                px_originalPrice = original p,
                px_currency = (if truthy_str (currency p) then currency p else ''USD''),
                px_availability = normalizeOpt (availability d),
                px_sellerName = map_option sl_name (seller d),
                px_sellerRating = (case seller d of Some s \<Rightarrow> sl_rating s | None \<Rightarrow> None),
                px_primeEligible = False\<rparr>)"

subsection \<open>Reviews\<close>

definition isWordChar :: "char \<Rightarrow> bool" where
  "isWordChar c =
     (let n = (of_char c :: nat)
      in isDigit c \<or> (65 \<le> n \<and> n \<le> 90) \<or> (97 \<le> n \<and> n \<le> 122) \<or> n = 95)"

text \<open>
  One attempt of \<^verbatim>\<open>/on\s+(\w+\s+\d+,\s+\d+)/\<close> at the head of the string, returning the
  captured group. The character classes that meet are disjoint, so the greedy
  reading is the only one.
\<close>

definition matchOnDateHere :: "string \<Rightarrow> string option" where
  "matchOnDateHere s =
     (if \<not> prefix ''on'' s then None
      else
        let r = drop 2 s;
            ws1 = takeWhile isSpace r; r2 = dropWhile isSpace r;
            w = takeWhile isWordChar r2; r3 = dropWhile isWordChar r2;
            ws2 = takeWhile isSpace r3; r4 = dropWhile isSpace r3;
            d1 = takeWhile isDigit r4; r5 = dropWhile isDigit r4
        in if ws1 = [] \<or> w = [] \<or> ws2 = [] \<or> d1 = [] then None
           else (case r5 of
                   [] \<Rightarrow> None
                 | c # r6 \<Rightarrow>
                     if c \<noteq> CHR '','' then None
                     else
                       let ws3 = takeWhile isSpace r6; r7 = dropWhile isSpace r6;
                           d2 = takeWhile isDigit r7
                       in if ws3 = [] \<or> d2 = [] then None
                          else Some (w @ ws2 @ d1 @ [c] @ ws3 @ d2)))"

text \<open>The leftmost position at which the pattern matches.\<close>

fun matchOnDate :: "string \<Rightarrow> string option" where
  "matchOnDate [] = None"
| "matchOnDate (c # cs) =
     (case matchOnDateHere (c # cs) of Some m \<Rightarrow> Some m | None \<Rightarrow> matchOnDate cs)"

text \<open>\<^verbatim>\<open>parseDate\<close>: never throws; \<open>None\<close> is \<^verbatim>\<open>undefined\<close>.\<close>

definition parseDate :: "runtime \<Rightarrow> string \<Rightarrow> int option" where
  "parseDate rt dateString =
     (if \<not> truthy_str dateString then None
      else
        let viaPhrase =
              (if str_includes dateString ''Reviewed'' \<or> str_includes dateString ''on ''
               then (case matchOnDate dateString of
                       Some m \<Rightarrow> newDate rt m
                     | None \<Rightarrow> None)
               else None)
        in case viaPhrase of
             Some t \<Rightarrow> Some t
           | None \<Rightarrow> newDate rt dateString)"

record processed_review =
  pr_id :: string
  pr_productId :: string
  pr_rating :: jsnum
  pr_title :: "string option"
  pr_text :: string
  pr_author :: string
  pr_date :: "int option"
  pr_verified :: bool
  pr_helpfulCount :: jsnum

text \<open>The predicate of the first \<^verbatim>\<open>filter\<close> of \<^verbatim>\<open>processReviews\<close>.\<close>

definition keepReview :: "review_data \<Rightarrow> bool" where
  "keepReview review =
     (if (if truthy_str (rv_text review) then trim (rv_text review) = [] else True) then False
      else if (if truthy_num (rv_rating review)
               then js_lt (rv_rating review) (Fin 1) \<or> js_gt (rv_rating review) (Fin 5)
               else True) then False
      else True)"

text \<open>
  The body of the \<^verbatim>\<open>map\<close>: \<open>None\<close> is the \<^verbatim>\<open>null\<close> of the \<^verbatim>\<open>catch\<close> branch, reached when
  \<^verbatim>\<open>validateRating\<close> throws.
\<close>

definition processOneReview ::
  "runtime \<Rightarrow> nat \<Rightarrow> string \<Rightarrow> review_data \<Rightarrow> processed_review option" where
  "processOneReview rt k productId review =
     (case validateRating (rv_rating review) of
        None \<Rightarrow> None
      | Some r \<Rightarrow>
          Some \<lparr>pr_id = nanoid rt k,
                pr_productId = productId,
                pr_rating = r,
                pr_title = normalizeOpt (rv_title review),
                pr_text = normalizeText (rv_text review),
                pr_author = normalizeText
                              (if truthy_str (rv_author review) then rv_author review
                               else ''Anonymous''),
                pr_date = (case rv_date review of
                             None \<Rightarrow> None
                           | Some d \<Rightarrow> if truthy_str d then parseDate rt d else None),
                pr_verified = (case rv_verified review of Some b \<Rightarrow> b | None \<Rightarrow> False),
                pr_helpfulCount = (case rv_helpfulCount review of
                                     None \<Rightarrow> Fin 0
                                   | Some n \<Rightarrow> if truthy_num n then n else Fin 0)\<rparr>)"

text \<open>
  \<^verbatim>\<open>processReviews\<close>: filter, map with the per-review \<^verbatim>\<open>try\<close>, filter out the nulls. The
  \<open>i\<close>-th surviving review takes the \<open>(k + i)\<close>-th identifier of the runtime.
\<close>

definition processReviews ::
  "runtime \<Rightarrow> nat \<Rightarrow> reviews_response \<Rightarrow> string \<Rightarrow> processed_review list" where
  "processReviews rt k reviewsData productId =
     (let kept = filter keepReview (rs_reviews reviewsData);
          mapped = map (\<lambda>(i, review). processOneReview rt (k + i) productId review)
                     (zip [0..<length kept] kept)
      in map the (filter (\<lambda>r. r \<noteq> None) mapped))"

text \<open>
  The reading of the specification: a rating lies in the range when it compares
  \<open>1 \<le> r \<le> 5\<close> (NaN does not), and a text is blank when it is empty or white space
  only.
\<close>

definition ratingInRange :: "jsnum \<Rightarrow> bool" where
  "ratingInRange r = (js_le (Fin 1) r \<and> js_le r (Fin 5))"

definition blankText :: "string \<Rightarrow> bool" where
  "blankText t = list_all isSpace t"

definition excludedReview :: "review_data \<Rightarrow> bool" where
  "excludedReview review =
     (if ratingInRange (rv_rating review) then blankText (rv_text review) else True)"

section \<open>The relational store, the queue and the event log\<close>

datatype job_type = Product | Search | Review | PriceUpdate | UnknownType string

datatype job_status = Pending | Running | Completed | Failed | Suspended

record job_data =
  jd_asin :: "string option"
  jd_keyword :: "string option"
  jd_limit :: "int option"
  jd_country :: "string option"
  jd_type :: job_type

text \<open>
  The \<^verbatim>\<open>input\<close> column holds the job payload, or the \<^verbatim>\<open>{asin, cronPattern}\<close> pair
  written when a recurring update is scheduled.
\<close>

datatype job_input = DataInput job_data | ScheduleInput string string

text \<open>
  A row of \<^verbatim>\<open>scrape_jobs\<close>. The columns \<^verbatim>\<open>output\<close> and \<^verbatim>\<open>api_calls_used\<close> are written by no
  statement of the repository and are left out. Time stamps are natural numbers.
\<close>

record scrape_job =
  job_id :: string
  job_kind :: job_type
  job_state :: job_status
  job_input :: job_input
  job_error :: "string option"
  job_isScheduled :: bool
  job_startedAt :: "nat option"
  job_completedAt :: "nat option"
  job_createdAt :: nat
  job_updatedAt :: nat

record product_row =
  row_data :: processed_product
  row_updatedAt :: nat

record api_usage =
  au_id :: string
  au_month :: string
  au_callsUsed :: int
  au_callsLimit :: int

record queue_job =
  qj_id :: string
  qj_data :: job_data

text \<open>
  The calls the collector makes: to its usage check, to its usage recording, and to
  the scraping client.
\<close>

datatype event =
    UsageChecked
  | UsageRecorded int
  | ProductFetched string
  | SearchFetched string string
  | ReviewsFetched string nat

record world =
  scrapeJobs :: "scrape_job list"
  products :: "product_row list"
  prices :: "processed_price list"
  reviews :: "processed_review list"
  apiUsage :: "api_usage list"
  queue :: "queue_job list"
  events :: "event list"

type_synonym 'a result = "(js_error + 'a) \<times> world"

definition logEvent :: "event \<Rightarrow> world \<Rightarrow> world" where
  "logEvent e w = w\<lparr>events := events w @ [e]\<rparr>"

text \<open>
  \<^verbatim>\<open>select ... where <condition> limit 1\<close> and \<^verbatim>\<open>update ... set ... where <condition>\<close>
  on a table held as the list of its rows.
\<close>

definition selectFirst :: "('r \<Rightarrow> bool) \<Rightarrow> 'r list \<Rightarrow> 'r list" where
  "selectFirst cond rows = take 1 (filter cond rows)"

definition updateWhere :: "('r \<Rightarrow> bool) \<Rightarrow> ('r \<Rightarrow> 'r) \<Rightarrow> 'r list \<Rightarrow> 'r list" where
  "updateWhere cond f rows = map (\<lambda>r. if cond r then f r else r) rows"

section \<open>Usage limiter\<close>

record date =
  fullYear :: nat
  monthIndex :: nat

fun showNat :: "nat \<Rightarrow> string" where
  "showNat n =
     (if n < 10 then [char_of (48 + n)] else showNat (n div 10) @ [char_of (48 + n mod 10)])"

definition padStart2 :: "string \<Rightarrow> string" where
  "padStart2 s = replicate (2 - length s) CHR ''0'' @ s"

text \<open>\<^verbatim>\<open>getCurrentMonth\<close>, as a function of the wall clock it reads.\<close>

definition getCurrentMonth :: "date \<Rightarrow> string" where
  "getCurrentMonth now = showNat (fullYear now) @ ''-'' @ padStart2 (showNat (monthIndex now + 1))"

record usage_tracker =
  monthlyLimit :: int
  currentMonth :: string

text \<open>The constructor, run at wall-clock time \<open>now\<close>.\<close>

definition newUsageTracker :: "int \<Rightarrow> date \<Rightarrow> usage_tracker" where
  "newUsageTracker maxCalls now = \<lparr>monthlyLimit = maxCalls, currentMonth = getCurrentMonth now\<rparr>"

text \<open>
  Every method of the tracker below is called at some wall-clock time \<open>now\<close>; the
  argument is there to say when the call happens. The source reads the clock in
  the constructor only. The counters are unbounded integers, while the table's
  column is a 32-bit integer: the model says nothing about counts beyond that range.
\<close>

definition getCurrentUsage :: "runtime \<Rightarrow> usage_tracker \<Rightarrow> date \<Rightarrow> world \<Rightarrow> api_usage \<times> world" where
  "getCurrentUsage rt tr now w =
     (case selectFirst (\<lambda>u. au_month u = currentMonth tr) (apiUsage w) of
        u # _ \<Rightarrow> (u, w)
      | [] \<Rightarrow>
          (let newRecord = \<lparr>au_id = randomUUID rt (length (apiUsage w)),
                            au_month = currentMonth tr,
                            au_callsUsed = 0,
                            au_callsLimit = monthlyLimit tr\<rparr>
           in (newRecord, w\<lparr>apiUsage := apiUsage w @ [newRecord]\<rparr>)))"

definition recordUsage :: "runtime \<Rightarrow> usage_tracker \<Rightarrow> date \<Rightarrow> int \<Rightarrow> world \<Rightarrow> world" where
  "recordUsage rt tr now calls w =
     (let (usage, w1) = getCurrentUsage rt tr now w
      in w1\<lparr>apiUsage :=
             updateWhere (\<lambda>u. au_id u = au_id usage)
               (\<lambda>u. u\<lparr>au_callsUsed := au_callsUsed usage + calls\<rparr>) (apiUsage w1)\<rparr>)"

definition canMakeCall :: "runtime \<Rightarrow> usage_tracker \<Rightarrow> date \<Rightarrow> world \<Rightarrow> bool \<times> world" where
  "canMakeCall rt tr now w =
     (let (usage, w1) = getCurrentUsage rt tr now w
      in (au_callsUsed usage < au_callsLimit usage, w1))"

definition getRemainingCalls :: "runtime \<Rightarrow> usage_tracker \<Rightarrow> date \<Rightarrow> world \<Rightarrow> int \<times> world" where
  "getRemainingCalls rt tr now w =
     (let (usage, w1) = getCurrentUsage rt tr now w
      in (max 0 (au_callsLimit usage - au_callsUsed usage), w1))"

record usage_stats =
  us_month :: string
  us_callsUsed :: int
  us_callsLimit :: int
  us_remaining :: int
  us_percentageUsed :: jsnum

text \<open>
  \<^verbatim>\<open>(used / limit) * 100\<close>: a zero limit gives NaN or an infinity, as in double
  arithmetic; otherwise the model keeps the exact quotient, without rounding.
\<close>

definition percentage :: "int \<Rightarrow> int \<Rightarrow> jsnum" where
  "percentage used maxCalls =
     (if maxCalls = 0 then (if used = 0 then NaN else if 0 < used then PosInf else NegInf)
      else Fin (of_int used / of_int maxCalls * 100))"

definition getUsageStats :: "runtime \<Rightarrow> usage_tracker \<Rightarrow> date \<Rightarrow> world \<Rightarrow> usage_stats \<times> world" where
  "getUsageStats rt tr now w =
     (let (usage, w1) = getCurrentUsage rt tr now w
      in (\<lparr>us_month = au_month usage,
           us_callsUsed = au_callsUsed usage,
           us_callsLimit = au_callsLimit usage,
           us_remaining = au_callsLimit usage - au_callsUsed usage,
           us_percentageUsed = percentage (au_callsUsed usage) (au_callsLimit usage)\<rparr>, w1))"

section \<open>Collector\<close>

text \<open>
  A review as it comes embedded in a product response, before any validation: the
  fields the worker reads, each optional, with the types the worker's transformation
  expects of them.
\<close>

record embedded_review =
  er_stars :: "jsnum option"
  er_rating :: "jsnum option"
  er_title :: "string option"
  er_review :: "string option"
  er_text :: "string option"
  er_username :: "string option"
  er_author :: "string option"
  er_date :: "string option"
  er_verified_purchase :: "bool option"
  er_verified :: "bool option"
  er_total_found_helpful :: "jsnum option"
  er_helpfulCount :: "jsnum option"

text \<open>
  What \<^verbatim>\<open>getProductByASIN\<close> returns: the validated product, with the reviews of the
  response and their aggregates attached under \<^verbatim>\<open>_reviews\<close>, \<^verbatim>\<open>_averageRating\<close> and
  \<^verbatim>\<open>_totalReviews\<close> when the response carried any.
\<close>

record fetched_product =
  fp_data :: product_data
  fp_reviews :: "embedded_review list option"
  fp_averageRating :: "jsnum option"
  fp_totalReviews :: "jsnum option"

text \<open>
  The scraping client as the collector sees it: a product fetch returns the validated
  product, \<^verbatim>\<open>null\<close> when validation failed, or throws after its retries; a search
  returns the validated products or throws; a review fetch always returns a response
  (the client turns every failure into an empty one). The wall clock and the time
  stamp are those of the job being run.
\<close>

record services =
  runtimeOf :: runtime
  clock :: date
  timestamp :: nat
  productApi :: "string \<Rightarrow> js_error + fetched_product option"
  searchApi :: "string \<Rightarrow> string \<Rightarrow> js_error + product_data list"
  reviewsApi :: "string \<Rightarrow> nat \<Rightarrow> reviews_response"

record collector =
  usageTracker :: "usage_tracker option"

definition quotaError :: js_error where
  "quotaError = mkError ''API usage limit reached. Please wait until next month or upgrade plan.''"

text \<open>
  The two private helpers. Without a tracker neither does anything; with one, the
  call of the tracker's method is entered into the event log and the method runs on
  the usage table.
\<close>

definition checkUsageLimit :: "services \<Rightarrow> collector \<Rightarrow> world \<Rightarrow> unit result" where
  "checkUsageLimit sv col w =
     (case usageTracker col of
        None \<Rightarrow> (Inr (), w)
      | Some tr \<Rightarrow>
          (let (ok, w1) = canMakeCall (runtimeOf sv) tr (clock sv) (logEvent UsageChecked w)
           in if \<not> ok then (Inl quotaError, w1) else (Inr (), w1)))"

definition trackUsage :: "services \<Rightarrow> collector \<Rightarrow> int \<Rightarrow> world \<Rightarrow> world" where
  "trackUsage sv col calls w =
     (case usageTracker col of
        None \<Rightarrow> w
      | Some tr \<Rightarrow>
          recordUsage (runtimeOf sv) tr (clock sv) calls (logEvent (UsageRecorded calls) w))"

definition collectProductByASIN ::
  "services \<Rightarrow> collector \<Rightarrow> string \<Rightarrow> world \<Rightarrow> fetched_product option result" where
  "collectProductByASIN sv col a w =
     (case checkUsageLimit sv col w of
        (Inl e, w1) \<Rightarrow> (Inl e, w1)
      | (Inr _, w1) \<Rightarrow>
          (case productApi sv a of
             Inl e \<Rightarrow> (Inl e, logEvent (ProductFetched a) w1)
           | Inr product \<Rightarrow> (Inr product, trackUsage sv col 1 (logEvent (ProductFetched a) w1))))"

text \<open>\<^verbatim>\<open>xs.slice(0, n)\<close> for an integer \<open>n\<close>: a negative end counts from the back.\<close>

definition slice0 :: "'a list \<Rightarrow> int \<Rightarrow> 'a list" where
  "slice0 xs n = (if n < 0 then take (length xs - nat (- n)) xs else take (nat n) xs)"

definition truthy_limit :: "int option \<Rightarrow> bool" where
  "truthy_limit l = (case l of None \<Rightarrow> False | Some n \<Rightarrow> n \<noteq> 0)"

text \<open>\<^verbatim>\<open>collectProductsBySearch\<close>: one call, the country defaulting to \<^verbatim>\<open>us\<close>.\<close>

definition collectProductsBySearch ::
  "services \<Rightarrow> collector \<Rightarrow> string \<Rightarrow> int option \<Rightarrow> string option \<Rightarrow> world
     \<Rightarrow> product_data list result" where
  "collectProductsBySearch sv col keyword limit country w =
     (case checkUsageLimit sv col w of
        (Inl e, w1) \<Rightarrow> (Inl e, w1)
      | (Inr _, w1) \<Rightarrow>
          (let c = str_or_else country ''us''
           in case searchApi sv keyword c of
                Inl e \<Rightarrow> (Inl e, logEvent (SearchFetched keyword c) w1)
              | Inr found \<Rightarrow>
                  (Inr (if truthy_limit limit then slice0 found (the limit) else found),
                   trackUsage sv col 1 (logEvent (SearchFetched keyword c) w1))))"

text \<open>
  The \<^verbatim>\<open>while\<close> loop of \<^verbatim>\<open>collectReviews\<close>, entered with \<^verbatim>\<open>currentPage = 2\<close>; the \<^verbatim>\<open>break\<close>
  on an empty page leaves it.
\<close>

function fetchMorePages ::
  "services \<Rightarrow> collector \<Rightarrow> string \<Rightarrow> int \<Rightarrow> nat \<Rightarrow> review_data list \<Rightarrow> world
     \<Rightarrow> review_data list result" where
  "fetchMorePages sv col a lmt currentPage allReviews w =
     (if int (length allReviews) < lmt \<and> currentPage \<le> 5
      then (case checkUsageLimit sv col w of
              (Inl e, w1) \<Rightarrow> (Inl e, w1)
            | (Inr _, w1) \<Rightarrow>
                (let pageResponse = reviewsApi sv a currentPage;
                     w2 = trackUsage sv col 1 (logEvent (ReviewsFetched a currentPage) w1);
                     allReviews' = allReviews @ rs_reviews pageResponse
                 in if rs_reviews pageResponse = [] then (Inr allReviews', w2)
                    else fetchMorePages sv col a lmt (currentPage + 1) allReviews' w2))
      else (Inr allReviews, w))"
  by pat_completeness auto
termination
  by (relation "measure (\<lambda>(sv, col, a, lmt, currentPage, allReviews, w). 6 - currentPage)") auto

definition collectReviews ::
  "services \<Rightarrow> collector \<Rightarrow> string \<Rightarrow> int option \<Rightarrow> world \<Rightarrow> reviews_response result" where
  "collectReviews sv col a limit w =
     (case checkUsageLimit sv col w of
        (Inl e, w1) \<Rightarrow> (Inl e, w1)
      | (Inr _, w1) \<Rightarrow>
          (let response = reviewsApi sv a 1;
               w2 = trackUsage sv col 1 (logEvent (ReviewsFetched a 1) w1)
           in if truthy_limit limit \<and> int (length (rs_reviews response)) < the limit
              then (case fetchMorePages sv col a (the limit) 2 (rs_reviews response) w2 of
                      (Inl e, w3) \<Rightarrow> (Inl e, w3)
                    | (Inr allReviews, w3) \<Rightarrow>
                        (Inr \<lparr>rs_reviews = slice0 allReviews (the limit),
                              rs_averageRating = rs_averageRating response,
                              rs_totalReviews = rs_totalReviews response\<rparr>, w3))
              else if truthy_limit limit
              then (Inr (response\<lparr>rs_reviews := slice0 (rs_reviews response) (the limit)\<rparr>), w2)
              else (Inr response, w2)))"

text \<open>\<^verbatim>\<open>collectPriceHistory\<close> is one product fetch.\<close>

definition collectPriceHistory ::
  "services \<Rightarrow> collector \<Rightarrow> string \<Rightarrow> world \<Rightarrow> fetched_product option result" where
  "collectPriceHistory sv col a w = collectProductByASIN sv col a w"


definition usageOf :: "usage_tracker \<Rightarrow> world \<Rightarrow> int \<times> int" where
  "usageOf tr w =
     (case selectFirst (\<lambda>u. au_month u = currentMonth tr) (apiUsage w) of
        u # _ \<Rightarrow> (au_callsUsed u, au_callsLimit u)
      | [] \<Rightarrow> (0, monthlyLimit tr))"


definition exhaustedAfter :: "collector \<Rightarrow> world \<Rightarrow> nat \<Rightarrow> bool" where
  "exhaustedAfter col w k =
     (case usageTracker col of
        None \<Rightarrow> False
      | Some tr \<Rightarrow> snd (usageOf tr w) \<le> fst (usageOf tr w) + int k)"





section \<open>Job scheduler\<close>

text \<open>\<^verbatim>\<open>JobQueue.removeJob\<close>: look the job up and remove it when it is there.\<close>

definition removeJob :: "string \<Rightarrow> world \<Rightarrow> world" where
  "removeJob jobId w =
     (case selectFirst (\<lambda>j. qj_id j = jobId) (queue w) of
        [] \<Rightarrow> w
      | j # _ \<Rightarrow> w\<lparr>queue := filter (\<lambda>q. qj_id q \<noteq> jobId) (queue w)\<rparr>)"

definition cancelRow :: "nat \<Rightarrow> scrape_job \<Rightarrow> scrape_job" where
  "cancelRow now r =
     r\<lparr>job_state := Failed, job_error := Some ''Cancelled by user'', job_completedAt := Some now\<rparr>"

text \<open>
  \<^verbatim>\<open>cancelScheduledJob\<close>: the job leaves the queue, then the update runs with the
  condition \<^verbatim>\<open>eq(scrapeJobs.status, "pending")\<close>.
\<close>

definition cancelScheduledJob :: "nat \<Rightarrow> string \<Rightarrow> world \<Rightarrow> world" where
  "cancelScheduledJob now jobId w =
     (let w1 = removeJob jobId w
      in w1\<lparr>scrapeJobs := updateWhere (\<lambda>r. job_state r = Pending) (cancelRow now) (scrapeJobs w1)\<rparr>)"

section \<open>Collection worker\<close>

subsection \<open>Classifying a failed insert\<close>

text \<open>\<^verbatim>\<open>String(error)\<close> for an \<^verbatim>\<open>Error\<close> object.\<close>

definition errorToString :: "js_error \<Rightarrow> string" where
  "errorToString e =
     (if err_message e = [] then err_name e
      else if err_name e = [] then err_message e
      else err_name e @ '': '' @ err_message e)"

definition isQuote :: "char \<Rightarrow> bool" where
  "isQuote c = ((of_char c :: nat) = 34)"

text \<open>One attempt of \<^verbatim>\<open>/code:\s*"([^"]+)"/\<close> at the head of the string.\<close>

definition matchCodeHere :: "string \<Rightarrow> string option" where
  "matchCodeHere s =
     (if \<not> prefix ''code:'' s then None
      else (case dropWhile isSpace (drop 5 s) of
              [] \<Rightarrow> None
            | q # r \<Rightarrow>
                if \<not> isQuote q then None
                else (let body = takeWhile (\<lambda>c. \<not> isQuote c) r;
                          rest = dropWhile (\<lambda>c. \<not> isQuote c) r
                      in if body = [] \<or> rest = [] then None else Some body)))"

fun extractPostgresErrorCode :: "string \<Rightarrow> string option" where
  "extractPostgresErrorCode [] = None"
| "extractPostgresErrorCode (c # cs) =
     (case matchCodeHere (c # cs) of
        Some m \<Rightarrow> Some m
      | None \<Rightarrow> extractPostgresErrorCode cs)"

definition truthy_opt :: "string option \<Rightarrow> bool" where
  "truthy_opt x = (case x of None \<Rightarrow> False | Some s \<Rightarrow> truthy_str s)"

text \<open>
  \<^verbatim>\<open>insertError?.code || insertError?.cause?.code || (detail ? extract(detail) : null)\<close>.
\<close>

definition errorCodeOf :: "js_error \<Rightarrow> string option" where
  "errorCodeOf e =
     (if truthy_opt (err_code e) then err_code e
      else (case err_cause e of
              None \<Rightarrow> None
            | Some c \<Rightarrow>
                if truthy_opt (cause_code c) then cause_code c
                else (case cause_detail c of
                        None \<Rightarrow> None
                      | Some d \<Rightarrow> if truthy_str d then extractPostgresErrorCode d else None)))"

text \<open>
  \<^verbatim>\<open>String(insertError?.message || insertError?.cause?.message || insertError || "")\<close>;
  the error object itself is truthy.
\<close>

definition errorMessageOf :: "js_error \<Rightarrow> string" where
  "errorMessageOf e =
     (if truthy_str (err_message e) then err_message e
      else (case err_cause e of
              None \<Rightarrow> errorToString e
            | Some c \<Rightarrow> if truthy_str (cause_message c) then cause_message c
                        else errorToString e))"

definition isDuplicateKey :: "js_error \<Rightarrow> bool" where
  "isDuplicateKey e =
     (errorCodeOf e = Some ''23505''
      \<or> str_includes (errorMessageOf e) ''duplicate key''
      \<or> str_includes (errorMessageOf e) ''23505''
      \<or> str_includes (errorToString e) ''duplicate key''
      \<or> str_includes (errorToString e) ''23505'')"

subsection \<open>The job table under concurrent writers\<close>

text \<open>
  What the database driver and the other writers of \<^verbatim>\<open>scrape_jobs\<close> contribute to one
  run of the worker: the errors the driver throws for a unique-constraint conflict
  and for a value outside the \<^verbatim>\<open>job_type\<close> enumeration, a failure of the worker's
  insert that has another cause (\<open>None\<close>: no such failure), and the statements of
  other processes that reach the table between the worker's lookup and its insert,
  and between its insert and its second lookup.
\<close>

datatype db_op =
    ProducerInsert scrape_job
  | SetStatus string job_status
  | CancelPending nat

record worker_env =
  uniqueViolation :: js_error
  invalidEnum :: js_error
  insertFault :: "js_error option"
  raceBeforeInsert :: "db_op list"
  raceBeforeRecheck :: "db_op list"

definition isUnknownType :: "job_type \<Rightarrow> bool" where
  "isUnknownType t = (case t of UnknownType _ \<Rightarrow> True | _ \<Rightarrow> False)"

text \<open>An insert into \<^verbatim>\<open>scrape_jobs\<close>: the type column is an enumeration, the id is the primary key.\<close>

definition insertJobRow :: "worker_env \<Rightarrow> scrape_job \<Rightarrow> scrape_job list \<Rightarrow> js_error + scrape_job list" where
  "insertJobRow env row rows =
     (if isUnknownType (job_kind row) then Inl (invalidEnum env)
      else if list_ex (\<lambda>r. job_id r = job_id row) rows then Inl (uniqueViolation env)
      else Inr (rows @ [row]))"

text \<open>
  The statements of the other writers: the producer's insert (its own failure is its
  own), the status updates of the suspend and resume routes, and the blanket update
  of \<^verbatim>\<open>cancelScheduledJob\<close>. None of them deletes a row, as nothing in the repository does.
\<close>

definition applyOp :: "worker_env \<Rightarrow> scrape_job list \<Rightarrow> db_op \<Rightarrow> scrape_job list" where
  "applyOp env rows op =
     (case op of
        ProducerInsert row \<Rightarrow> (case insertJobRow env row rows of Inl _ \<Rightarrow> rows | Inr rows' \<Rightarrow> rows')
      | SetStatus jobId st \<Rightarrow>
          updateWhere (\<lambda>r. job_id r = jobId) (\<lambda>r. r\<lparr>job_state := st\<rparr>) rows
      | CancelPending now \<Rightarrow> updateWhere (\<lambda>r. job_state r = Pending) (cancelRow now) rows)"

definition applyOps :: "worker_env \<Rightarrow> db_op list \<Rightarrow> scrape_job list \<Rightarrow> scrape_job list" where
  "applyOps env ops rows = foldl (applyOp env) rows ops"

definition workerInsert :: "worker_env \<Rightarrow> scrape_job \<Rightarrow> scrape_job list \<Rightarrow> js_error + scrape_job list" where
  "workerInsert env row rows =
     (case insertFault env of Some e \<Rightarrow> Inl e | None \<Rightarrow> insertJobRow env row rows)"

subsection \<open>The dequeue-time protocol\<close>

definition setRunning :: "nat \<Rightarrow> scrape_job \<Rightarrow> scrape_job" where
  "setRunning now r = r\<lparr>job_state := Running, job_startedAt := Some now, job_updatedAt := now\<rparr>"

definition newRunningRow :: "nat \<Rightarrow> queue_job \<Rightarrow> scrape_job" where
  "newRunningRow now job =
     \<lparr>job_id = qj_id job, job_kind = jd_type (qj_data job), job_state = Running,
      job_input = DataInput (qj_data job), job_error = None, job_isScheduled = False,
      job_startedAt = Some now, job_completedAt = None, job_createdAt = now,
      job_updatedAt = now\<rparr>"

datatype dequeue = Skip | Proceed

text \<open>
  The first part of \<^verbatim>\<open>processJob\<close>, up to the \<^verbatim>\<open>switch\<close>: \<open>Skip\<close> is the early \<^verbatim>\<open>return\<close>
  for a suspended job, \<open>Inl\<close> an error on its way to the outer \<^verbatim>\<open>catch\<close>.
\<close>

definition dequeueProtocol :: "services \<Rightarrow> worker_env \<Rightarrow> queue_job \<Rightarrow> world \<Rightarrow> dequeue result" where
  "dequeueProtocol sv env job w =
     (let jobId = qj_id job; now = timestamp sv
      in case selectFirst (\<lambda>r. job_id r = jobId) (scrapeJobs w) of
           r # _ \<Rightarrow>
             if job_state r = Suspended then (Inr Skip, w)
             else (Inr Proceed,
                   w\<lparr>scrapeJobs := updateWhere (\<lambda>r. job_id r = jobId) (setRunning now) (scrapeJobs w)\<rparr>)
         | [] \<Rightarrow>
             (let rows1 = applyOps env (raceBeforeInsert env) (scrapeJobs w)
              in case workerInsert env (newRunningRow now job) rows1 of
                   Inr rows2 \<Rightarrow> (Inr Proceed, w\<lparr>scrapeJobs := rows2\<rparr>)
                 | Inl insertError \<Rightarrow>
                     if isDuplicateKey insertError
                     then (let rows3 = applyOps env (raceBeforeRecheck env) rows1
                           in case selectFirst (\<lambda>r. job_id r = jobId) rows3 of
                                _ # _ \<Rightarrow>
                                  (Inr Proceed,
                                   w\<lparr>scrapeJobs :=
                                       updateWhere (\<lambda>r. job_id r = jobId) (setRunning now) rows3\<rparr>)
                              | [] \<Rightarrow> (Inl insertError, w\<lparr>scrapeJobs := rows3\<rparr>))
                     else (Inl insertError, w\<lparr>scrapeJobs := rows1\<rparr>)))"

subsection \<open>Handlers\<close>

definition productNotFetched :: "string \<Rightarrow> js_error" where
  "productNotFetched a =
     mkError (''Failed to fetch product data for ASIN: '' @ a
              @ ''. Product validation failed or product not found. ScraperAPI have returned invalid data.'')"

definition productByAsin :: "string \<Rightarrow> world \<Rightarrow> product_row list" where
  "productByAsin a w = selectFirst (\<lambda>p. pp_asin (row_data p) = a) (products w)"

text \<open>
  The two writes of the upsert. The table has a primary key and a unique \<^verbatim>\<open>asin\<close>
  column, so either can be refused by the database. The update is modelled as
  writing every column of the row; the driver leaves a column as it was when the new
  value is \<^verbatim>\<open>undefined\<close>.
\<close>

definition insertProduct :: "worker_env \<Rightarrow> product_row \<Rightarrow> world \<Rightarrow> unit result" where
  "insertProduct env row w =
     (if list_ex (\<lambda>p. pp_id (row_data p) = pp_id (row_data row)
                      \<or> pp_asin (row_data p) = pp_asin (row_data row)) (products w)
      then (Inl (uniqueViolation env), w)
      else (Inr (), w\<lparr>products := products w @ [row]\<rparr>))"

definition updateProduct :: "worker_env \<Rightarrow> string \<Rightarrow> product_row \<Rightarrow> world \<Rightarrow> unit result" where
  "updateProduct env productId row w =
     (if list_ex (\<lambda>p. pp_id (row_data p) = productId) (products w)
         \<and> list_ex (\<lambda>p. pp_id (row_data p) \<noteq> productId
                         \<and> pp_asin (row_data p) = pp_asin (row_data row)) (products w)
      then (Inl (uniqueViolation env), w)
      else (Inr (), w\<lparr>products := updateWhere (\<lambda>p. pp_id (row_data p) = productId) (\<lambda>_. row)
                                     (products w)\<rparr>))"

text \<open>
  Update the product stored under the ASIN \<open>key\<close>, or insert a new one; the result is
  the product's identifier. The product handler looks up the ASIN of the job, the
  search handler the ASIN of the processed product.
\<close>

definition upsertProduct ::
  "services \<Rightarrow> worker_env \<Rightarrow> string \<Rightarrow> processed_product \<Rightarrow> world \<Rightarrow> string result" where
  "upsertProduct sv env key processed w =
     (case productByAsin key w of
        ex # _ \<Rightarrow>
          (let productId = pp_id (row_data ex)
           in case updateProduct env productId
                     \<lparr>row_data = processed\<lparr>pp_id := productId\<rparr>, row_updatedAt = timestamp sv\<rparr> w of
                (Inl e, w1) \<Rightarrow> (Inl e, w1)
              | (Inr _, w1) \<Rightarrow> (Inr productId, w1))
      | [] \<Rightarrow>
          (case insertProduct env \<lparr>row_data = processed, row_updatedAt = timestamp sv\<rparr> w of
             (Inl e, w1) \<Rightarrow> (Inl e, w1)
           | (Inr _, w1) \<Rightarrow> (Inr (pp_id processed), w1)))"

definition savePrice :: "services \<Rightarrow> product_data \<Rightarrow> string \<Rightarrow> world \<Rightarrow> world" where
  "savePrice sv productData productId w =
     (case processPrice (runtimeOf sv) (length (prices w)) productData productId of
        None \<Rightarrow> w
      | Some p \<Rightarrow> w\<lparr>prices := prices w @ [p]\<rparr>)"

subsection \<open>The review stage of the product and search handlers\<close>

definition lowerChar :: "char \<Rightarrow> char" where
  "lowerChar c =
     (let n = (of_char c :: nat) in if 65 \<le> n \<and> n \<le> 90 then char_of (n + 32) else c)"

text \<open>A word of the pattern, matched without regard to case, and the rest behind it.\<close>

definition dropWord :: "string \<Rightarrow> string \<Rightarrow> string option" where
  "dropWord word s =
     (if map lowerChar (take (length word) s) = word \<and> length word \<le> length s
      then Some (drop (length word) s) else None)"

text \<open>At least one white-space character, and the rest behind the run.\<close>

definition dropSpaces1 :: "string \<Rightarrow> string option" where
  "dropSpaces1 s = (if takeWhile isSpace s = [] then None else Some (dropWhile isSpace s))"

definition dropDigits1 :: "string \<Rightarrow> string option" where
  "dropDigits1 s = (if takeWhile isDigit s = [] then None else Some (dropWhile isDigit s))"

text \<open>
  \<^verbatim>\<open>title.replace(/^\d+\.?\d*\s+out\s+of\s+\d+\s+stars\s*\n*\s*/i, "")\<close>: the title without
  the leading star count, or the title itself when the pattern does not match. The
  classes that meet are disjoint, so the greedy reading is the only one.
\<close>

definition stripStars :: "string \<Rightarrow> string" where
  "stripStars t =
     (case Option.bind (dropDigits1 t)
             (\<lambda>r1. let r2 = (case r1 of [] \<Rightarrow> r1 | c # cs \<Rightarrow> if c = CHR ''.'' then cs else r1)
                   in Option.bind (dropSpaces1 (dropWhile isDigit r2))
             (\<lambda>r3. Option.bind (dropWord ''out'' r3)
             (\<lambda>r4. Option.bind (dropSpaces1 r4)
             (\<lambda>r5. Option.bind (dropWord ''of'' r5)
             (\<lambda>r6. Option.bind (dropSpaces1 r6)
             (\<lambda>r7. Option.bind (dropDigits1 r7)
             (\<lambda>r8. Option.bind (dropSpaces1 r8)
             (\<lambda>r9. dropWord ''stars'' r9)))))))) of
        None \<Rightarrow> t
      | Some rest \<Rightarrow> dropWhile isSpace rest)"

definition num_or :: "jsnum option \<Rightarrow> jsnum option \<Rightarrow> jsnum option" where
  "num_or a b = (case a of Some n \<Rightarrow> (if truthy_num n then Some n else b) | None \<Rightarrow> b)"

definition num_or_else :: "jsnum option \<Rightarrow> jsnum \<Rightarrow> jsnum" where
  "num_or_else a d = (case a of Some n \<Rightarrow> (if truthy_num n then n else d) | None \<Rightarrow> d)"

definition bool_or :: "bool option \<Rightarrow> bool option \<Rightarrow> bool" where
  "bool_or a b =
     (case a of
        Some True \<Rightarrow> True
      | _ \<Rightarrow> (case b of Some True \<Rightarrow> True | _ \<Rightarrow> False))"

text \<open>The body of the \<^verbatim>\<open>map\<close> that brings the field names of the API to the canonical ones.\<close>

definition transformReview :: "embedded_review \<Rightarrow> review_data" where
  "transformReview review =
     \<lparr>rv_rating = num_or_else (num_or (er_stars review) (er_rating review)) (Fin 0),
      rv_title = (case er_title review of
                    None \<Rightarrow> None
                  | Some t \<Rightarrow>
                      if truthy_str t
                      then (let t' = trim (stripStars t) in if t' = [] then None else Some t')
                      else Some t),
      rv_text = str_or_else (str_or (er_review review) (er_text review)) [],
      rv_author = str_or_else (str_or (er_username review) (er_author review)) ''Anonymous'',
      rv_date = str_or (er_date review) None,
      rv_verified = Some (bool_or (er_verified_purchase review) (er_verified review)),
      rv_helpfulCount =
        Some (num_or_else (num_or (er_total_found_helpful review) (er_helpfulCount review)) (Fin 0))\<rparr>"

text \<open>A review of a validated reviews response, read through the same field names.\<close>

definition ofReviewData :: "review_data \<Rightarrow> embedded_review" where
  "ofReviewData r =
     \<lparr>er_stars = None, er_rating = Some (rv_rating r), er_title = rv_title r, er_review = None,
      er_text = Some (rv_text r), er_username = None, er_author = Some (rv_author r),
      er_date = rv_date r, er_verified_purchase = None, er_verified = rv_verified r,
      er_total_found_helpful = None, er_helpfulCount = rv_helpfulCount r\<rparr>"

text \<open>
  The last block of the stage: transform, process, delete the stored reviews of the
  product, insert the new ones. Nothing in it throws on values of these types, and
  the source catches what it would throw. The model stores a rating as the number it
  is; the column is an integer, and what the database does with a fractional rating
  is left out.
\<close>

definition replaceReviews ::
  "services \<Rightarrow> embedded_review list \<Rightarrow> jsnum \<Rightarrow> jsnum \<Rightarrow> string \<Rightarrow> world \<Rightarrow> world" where
  "replaceReviews sv reviewsToProcess averageRating totalReviews productId w =
     (if reviewsToProcess = [] then w
      else
        let reviewsResponse = \<lparr>rs_reviews = map transformReview reviewsToProcess,
                                 rs_averageRating = averageRating,
                                 rs_totalReviews = totalReviews\<rparr>;
            processedReviews =
              processReviews (runtimeOf sv) (length (reviews w)) reviewsResponse productId
        in w\<lparr>reviews := filter (\<lambda>r. pr_productId r \<noteq> productId) (reviews w) @ processedReviews\<rparr>)"

text \<open>The reviews attached to the product response, with their aggregates.\<close>

definition embeddedReviews :: "fetched_product \<Rightarrow> (embedded_review list \<times> jsnum \<times> jsnum) option" where
  "embeddedReviews full =
     (case fp_reviews full of
        None \<Rightarrow> None
      | Some rs \<Rightarrow>
          Some (rs, num_or_else (fp_averageRating full) (Fin 0),
                num_or_else (fp_totalReviews full) (Fin (of_nat (length rs)))))"

text \<open>
  The separate fetch of up to 50 reviews; a failure (the quota error) is caught and
  leaves the stage without reviews.
\<close>

definition fetchedReviews ::
  "services \<Rightarrow> collector \<Rightarrow> string \<Rightarrow> world \<Rightarrow> (embedded_review list \<times> jsnum \<times> jsnum) \<times> world" where
  "fetchedReviews sv col a w =
     (case collectReviews sv col a (Some 50) w of
        (Inl e, w1) \<Rightarrow> (([], Fin 0, Fin 0), w1)
      | (Inr reviewsResponse, w1) \<Rightarrow>
          if rs_reviews reviewsResponse \<noteq> []
          then ((map ofReviewData (rs_reviews reviewsResponse),
                 rs_averageRating reviewsResponse, rs_totalReviews reviewsResponse), w1)
          else (([], Fin 0, Fin 0), w1))"

definition productReviewStage ::
  "services \<Rightarrow> collector \<Rightarrow> string \<Rightarrow> fetched_product \<Rightarrow> string \<Rightarrow> world \<Rightarrow> world" where
  "productReviewStage sv col a full productId w =
     (let ((rs, avg, total), w1) =
            (case embeddedReviews full of
               Some found \<Rightarrow> (found, w)
             | None \<Rightarrow> fetchedReviews sv col a w)
      in replaceReviews sv rs avg total productId w1)"

definition searchReviewStage ::
  "services \<Rightarrow> collector \<Rightarrow> string \<Rightarrow> fetched_product \<Rightarrow> string \<Rightarrow> world \<Rightarrow> world" where
  "searchReviewStage sv col processedAsin full productId w =
     (let ((rs, avg, total), w1) =
            (case embeddedReviews full of
               Some found \<Rightarrow> (found, w)
             | None \<Rightarrow>
                 if isValidASIN (Some processedAsin) then fetchedReviews sv col processedAsin w
                 else (([], Fin 0, Fin 0), w))
      in replaceReviews sv rs avg total productId w1)"

subsection \<open>The four handlers\<close>

text \<open>The product handler from the successful fetch on.\<close>

definition storeProduct ::
  "services \<Rightarrow> worker_env \<Rightarrow> collector \<Rightarrow> string \<Rightarrow> fetched_product \<Rightarrow> world \<Rightarrow> unit result" where
  "storeProduct sv env col a full w =
     (case processProduct (runtimeOf sv) (length (products w)) (fp_data full) None of
        Inl e \<Rightarrow> (Inl e, w)
      | Inr processed \<Rightarrow>
          (case upsertProduct sv env a processed w of
             (Inl e, w1) \<Rightarrow> (Inl e, w1)
           | (Inr productId, w1) \<Rightarrow>
               (Inr (), productReviewStage sv col a full productId
                          (savePrice sv (fp_data full) productId w1))))"

definition processProductJob ::
  "services \<Rightarrow> worker_env \<Rightarrow> collector \<Rightarrow> job_data \<Rightarrow> world \<Rightarrow> unit result" where
  "processProductJob sv env col data w =
     (if \<not> truthy_opt (jd_asin data) then (Inl (mkError ''ASIN is required for product job''), w)
      else
        let a = the (jd_asin data);
            existingProduct = productByAsin a w
        in case collectProductByASIN sv col a w of
             (Inl e, w1) \<Rightarrow> (Inl e, w1)
           | (Inr None, w1) \<Rightarrow>
               if existingProduct \<noteq> [] then (Inr (), w1)
               else (Inl (productNotFetched a), w1)
           | (Inr (Some productData), w1) \<Rightarrow> storeProduct sv env col a productData w1)"

text \<open>
  One round of the search handler's loop. Whatever the round throws is caught and
  counted; the writes made before the throw stay.
\<close>

definition searchDetail ::
  "services \<Rightarrow> collector \<Rightarrow> product_data \<Rightarrow> world \<Rightarrow> fetched_product \<times> world" where
  "searchDetail sv col productData w =
     (let partial = \<lparr>fp_data = productData, fp_reviews = None, fp_averageRating = None,
                      fp_totalReviews = None\<rparr>
      in if isValidASIN (Some (asin productData))
         then (case collectProductByASIN sv col (asin productData) w of
                 (Inr (Some detailedProduct), w1) \<Rightarrow> (detailedProduct, w1)
               | (_, w1) \<Rightarrow> (partial, w1))
         else (partial, w))"

definition searchRound ::
  "services \<Rightarrow> worker_env \<Rightarrow> collector \<Rightarrow> product_data \<Rightarrow> world \<Rightarrow> bool \<times> world" where
  "searchRound sv env col productData w =
     (let (full, w1) = searchDetail sv col productData w
      in case processProduct (runtimeOf sv) (length (products w1)) (fp_data full) None of
           Inl e \<Rightarrow> (False, w1)
         | Inr processed \<Rightarrow>
             (case upsertProduct sv env (pp_asin processed) processed w1 of
                (Inl e, w2) \<Rightarrow> (False, w2)
              | (Inr productId, w2) \<Rightarrow>
                  (True, searchReviewStage sv col (pp_asin processed) full productId
                           (savePrice sv (fp_data full) productId w2))))"

text \<open>The loop: the numbers of rounds that succeeded and that failed, and the world.\<close>

fun searchRounds ::
  "services \<Rightarrow> worker_env \<Rightarrow> collector \<Rightarrow> product_data list \<Rightarrow> nat \<times> nat \<Rightarrow> world
     \<Rightarrow> (nat \<times> nat) \<times> world" where
  "searchRounds sv env col [] counts w = (counts, w)"
| "searchRounds sv env col (productData # rest) (successCount, errorCount) w =
     (case searchRound sv env col productData w of
        (True, w1) \<Rightarrow> searchRounds sv env col rest (successCount + 1, errorCount) w1
      | (False, w1) \<Rightarrow> searchRounds sv env col rest (successCount, errorCount + 1) w1)"

definition processSearchJob ::
  "services \<Rightarrow> worker_env \<Rightarrow> collector \<Rightarrow> job_data \<Rightarrow> world \<Rightarrow> unit result" where
  "processSearchJob sv env col data w =
     (if \<not> truthy_opt (jd_keyword data)
      then (Inl (mkError ''Keyword is required for search job''), w)
      else
        case collectProductsBySearch sv col (the (jd_keyword data)) (jd_limit data)
               (jd_country data) w of
          (Inl e, w1) \<Rightarrow> (Inl e, w1)
        | (Inr productsList, w1) \<Rightarrow>
            (Inr (), snd (searchRounds sv env col productsList (0, 0) w1)))"

definition productNotFound :: "string \<Rightarrow> js_error" where
  "productNotFound a = mkError (''Product with ASIN '' @ a @ '' not found'')"

definition processReviewJob ::
  "services \<Rightarrow> worker_env \<Rightarrow> collector \<Rightarrow> job_data \<Rightarrow> world \<Rightarrow> unit result" where
  "processReviewJob sv env col data w =
     (if \<not> truthy_opt (jd_asin data) then (Inl (mkError ''ASIN is required for review job''), w)
      else
        let a = the (jd_asin data)
        in case productByAsin a w of
             [] \<Rightarrow> (Inl (productNotFound a), w)
           | productRecord # _ \<Rightarrow>
               (case collectReviews sv col a (jd_limit data) w of
                  (Inl e, w1) \<Rightarrow> (Inl e, w1)
                | (Inr reviewsData, w1) \<Rightarrow>
                    (let pid = pp_id (row_data productRecord);
                         processedReviews =
                           processReviews (runtimeOf sv) (length (reviews w1)) reviewsData pid;
                         w2 = w1\<lparr>reviews := reviews w1 @ processedReviews\<rparr>
                     in (Inr (),
                         w2\<lparr>products :=
                              updateWhere (\<lambda>p. pp_id (row_data p) = pid)
                                (\<lambda>p. \<lparr>row_data = (row_data p)
                                          \<lparr>pp_reviewCount := rs_totalReviews reviewsData,
                                           pp_rating := Some (rs_averageRating reviewsData)\<rparr>,
                                       row_updatedAt = timestamp sv\<rparr>)
                                (products w2)\<rparr>))))"

text \<open>
  The price-update handler reads \<^verbatim>\<open>productData.price\<close> without a null check: a fetch
  that returned \<^verbatim>\<open>null\<close> ends in a \<^verbatim>\<open>TypeError\<close>.
\<close>

definition nullPriceError :: js_error where
  "nullPriceError =
     \<lparr>err_name = ''TypeError'',
      err_message = ''Cannot read properties of null (reading '' @ [char_of (39::nat)]
                    @ ''price'' @ [char_of (39::nat)] @ '')'',
      err_code = None, err_cause = None\<rparr>"

definition processPriceUpdateJob ::
  "services \<Rightarrow> worker_env \<Rightarrow> collector \<Rightarrow> job_data \<Rightarrow> world \<Rightarrow> unit result" where
  "processPriceUpdateJob sv env col data w =
     (if \<not> truthy_opt (jd_asin data)
      then (Inl (mkError ''ASIN is required for price update job''), w)
      else
        let a = the (jd_asin data)
        in case productByAsin a w of
             [] \<Rightarrow> (Inl (productNotFound a), w)
           | productRecord # _ \<Rightarrow>
               (case collectPriceHistory sv col a w of
                  (Inl e, w1) \<Rightarrow> (Inl e, w1)
                | (Inr None, w1) \<Rightarrow> (Inl nullPriceError, w1)
                | (Inr (Some productData), w1) \<Rightarrow>
                    (Inr (), savePrice sv (fp_data productData) (pp_id (row_data productRecord)) w1)))"

definition dispatch :: "services \<Rightarrow> worker_env \<Rightarrow> collector \<Rightarrow> job_data \<Rightarrow> world \<Rightarrow> unit result" where
  "dispatch sv env col data w =
     (case jd_type data of
        Product \<Rightarrow> processProductJob sv env col data w
      | Search \<Rightarrow> processSearchJob sv env col data w
      | Review \<Rightarrow> processReviewJob sv env col data w
      | PriceUpdate \<Rightarrow> processPriceUpdateJob sv env col data w
      | UnknownType t \<Rightarrow> (Inl (mkError (''Unknown job type: '' @ t)), w))"

subsection \<open>The whole job\<close>

definition markCompleted :: "nat \<Rightarrow> scrape_job \<Rightarrow> scrape_job" where
  "markCompleted now r =
     r\<lparr>job_state := Completed, job_completedAt := Some now, job_updatedAt := now\<rparr>"

definition markFailed :: "nat \<Rightarrow> js_error \<Rightarrow> scrape_job \<Rightarrow> scrape_job" where
  "markFailed now e r =
     r\<lparr>job_state := Failed, job_error := Some (err_message e), job_completedAt := Some now,
       job_updatedAt := now\<rparr>"

text \<open>The \<^verbatim>\<open>catch\<close> block of \<^verbatim>\<open>processJob\<close>: record the failure, rethrow.\<close>

definition failJob :: "services \<Rightarrow> string \<Rightarrow> js_error \<Rightarrow> world \<Rightarrow> unit result" where
  "failJob sv jobId e w =
     (Inl e,
      if truthy_str jobId
      then w\<lparr>scrapeJobs := updateWhere (\<lambda>r. job_id r = jobId) (markFailed (timestamp sv) e)
                              (scrapeJobs w)\<rparr>
      else w)"

definition processJob :: "services \<Rightarrow> worker_env \<Rightarrow> collector \<Rightarrow> queue_job \<Rightarrow> world \<Rightarrow> unit result" where
  "processJob sv env col job w =
     (let jobId = qj_id job
      in case dequeueProtocol sv env job w of
           (Inl e, w1) \<Rightarrow> failJob sv jobId e w1
         | (Inr Skip, w1) \<Rightarrow> (Inr (), w1)
         | (Inr Proceed, w1) \<Rightarrow>
             (case dispatch sv env col (qj_data job) w1 of
                (Inl e, w2) \<Rightarrow> failJob sv jobId e w2
              | (Inr _, w2) \<Rightarrow>
                  (Inr (),
                   if truthy_str jobId
                   then w2\<lparr>scrapeJobs :=
                            updateWhere (\<lambda>r. job_id r = jobId) (markCompleted (timestamp sv))
                              (scrapeJobs w2)\<rparr>
                   else w2)))"

subsection \<open>What the limiter leaves alone\<close>


section \<open>Sample values for the concrete checks\<close>

definition sampleReview :: "rat \<Rightarrow> string \<Rightarrow> review_data" where
  "sampleReview r t = \<lparr>rv_rating = Fin r, rv_title = None, rv_text = t, rv_author = ''Ann'',
      rv_date = None, rv_verified = None, rv_helpfulCount = None\<rparr>"

definition sampleRuntime :: runtime where
  "sampleRuntime = \<lparr>newDate = (\<lambda>s. None), validUrl = (\<lambda>s. True), nanoid = (\<lambda>k. ''id''),
      randomUUID = (\<lambda>k. ''uuid'')\<rparr>"

definition emptyWorld :: world where
  "emptyWorld = \<lparr>scrapeJobs = [], products = [], prices = [], reviews = [], apiUsage = [],
      queue = [], events = []\<rparr>"

definition sampleData :: "job_type \<Rightarrow> string \<Rightarrow> job_data" where
  "sampleData t a = \<lparr>jd_asin = Some a, jd_keyword = None, jd_limit = None, jd_country = None,
      jd_type = t\<rparr>"

definition sampleJob :: "string \<Rightarrow> job_status \<Rightarrow> scrape_job" where
  "sampleJob i st = \<lparr>job_id = i, job_kind = Product, job_state = st,
      job_input = DataInput (sampleData Product ''B000000000''), job_error = None,
      job_isScheduled = False, job_startedAt = None, job_completedAt = None,
      job_createdAt = 0, job_updatedAt = 0\<rparr>"

definition pgUniqueViolation :: js_error where
  "pgUniqueViolation =
     \<lparr>err_name = ''Error'',
      err_message = ''Failed query: insert into scrape_jobs'',
      err_code = None,
      err_cause = Some \<lparr>cause_message = ''duplicate key value violates unique constraint scrape_jobs_pkey'',
                        cause_code = Some ''23505'',
                        cause_detail = Some ''Key (id)=(job-1) already exists.''\<rparr>\<rparr>"

definition emptyResponse :: reviews_response where
  "emptyResponse = \<lparr>rs_reviews = [], rs_averageRating = Fin 0, rs_totalReviews = Fin 0\<rparr>"

definition sampleServices :: services where
  "sampleServices =
     \<lparr>runtimeOf = sampleRuntime, clock = \<lparr>fullYear = 2026, monthIndex = 0\<rparr>, timestamp = 100,
      productApi = (\<lambda>a. Inr None), searchApi = (\<lambda>k c. Inr []),
      reviewsApi = (\<lambda>a p. emptyResponse)\<rparr>"

definition sampleEnv :: worker_env where
  "sampleEnv =
     \<lparr>uniqueViolation = pgUniqueViolation, invalidEnum = mkError ''invalid input value for enum job_type'',
      insertFault = None, raceBeforeInsert = [], raceBeforeRecheck = []\<rparr>"

definition sampleCollector :: collector where
  "sampleCollector = \<lparr>usageTracker = Some \<lparr>monthlyLimit = 1000, currentMonth = ''2026-01''\<rparr>\<rparr>"





definition sampleQueueJob :: queue_job where
  "sampleQueueJob = \<lparr>qj_id = ''job-1'', qj_data = sampleData Product ''B000000000''\<rparr>"








section \<open>Frame properties of the limiter and of the dequeue-time protocol\<close>













lemma selectFirst_Nil_iff: "selectFirst c rows = [] \<longleftrightarrow> \<not> list_ex c rows"
  unfolding selectFirst_def list_ex_iff
  by (auto simp: filter_empty_conv)


section \<open>Worker: the insert that loses the race\<close>










text \<open>
  Without a racing writer and without a fault the insert goes through, and the table
  gains the one running record.
\<close>

lemma insert_without_race:
  assumes "selectFirst (\<lambda>r. job_id r = qj_id job) (scrapeJobs w) = []"
      and "raceBeforeInsert env = []" and "insertFault env = None"
      and "\<not> isUnknownType (jd_type (qj_data job))"
  shows "dequeueProtocol sv env job w
           = (Inr Proceed, w\<lparr>scrapeJobs := scrapeJobs w @ [newRunningRow (timestamp sv) job]\<rparr>)"
proof -
  from assms(1) have "\<not> list_ex (\<lambda>r. job_id r = qj_id job) (scrapeJobs w)"
    by (simp add: selectFirst_Nil_iff)
  with assms show ?thesis
    by (simp add: dequeueProtocol_def Let_def applyOps_def workerInsert_def insertJobRow_def
          newRunningRow_def)
qed









section \<open>Worker: a suspended job\<close>

text \<open>
  Claim C2. When the lookup by the job's id finds a record and its status is
  suspended, \<^verbatim>\<open>processJob\<close> returns without an error and leaves the whole world as it
  was: the job table (the record stays suspended), the products, prices and reviews,
  the usage table, the queue and the log of calls to the limiter and the API.
\<close>

theorem suspended_job_untouched:
  assumes "selectFirst (\<lambda>r. job_id r = qj_id job) (scrapeJobs w) = r # rest"
      and "job_state r = Suspended"
  shows "processJob sv env col job w = (Inr (), w)"
  using assms by (simp add: processJob_def dequeueProtocol_def Let_def)

theorem suspended_job_untouched_witness:
  "processJob sampleServices sampleEnv sampleCollector
      sampleQueueJob
      (emptyWorld\<lparr>scrapeJobs := [sampleJob ''job-1'' Suspended]\<rparr>)
     = (Inr (), emptyWorld\<lparr>scrapeJobs := [sampleJob ''job-1'' Suspended]\<rparr>)"
  by (rule suspended_job_untouched[where r = "sampleJob ''job-1'' Suspended" and rest = "[]"])
     (simp_all add: selectFirst_def sampleJob_def sampleQueueJob_def)

section \<open>Worker: a product job whose fetch yields no product\<close>










section \<open>Collector: paging through the reviews\<close>


















lemma exhaustedAfter_mono: "exhaustedAfter col w j \<Longrightarrow> j \<le> k \<Longrightarrow> exhaustedAfter col w k"
  by (auto simp: exhaustedAfter_def split: option.splits)






declare fetchMorePages.simps [simp del]















section \<open>Product schema: price normalization\<close>

lemma parsePriceString_dollar: "parsePriceString (Str ''$171.95'') = Some (Fin 171.95)"
  by code_simp

lemma parsePriceString_number: "parsePriceString (Num 188) = Some (Fin 188)"
  by (simp add: parsePriceString_def)

lemma normalizePrice_string:
  "normalizePrice (emptyRaw\<lparr>r_asin := Some ''B000000000'', r_price := Some (PriceStr ''$171.95'')\<rparr>)
     = Some \<lparr>current = Fin 171.95, original = None, currency = ''USD''\<rparr>"
  by (simp add: normalizePrice_def extractCurrent_def extractOriginal_def emptyRaw_def
        str_or_else_def parsePriceString_dollar)

lemma normalizePrice_currency:
  "normalizePrice d = Some p \<Longrightarrow> currency p = str_or_else (r_currency d) ''USD''"
  by (auto simp: normalizePrice_def Let_def split: prod.splits option.splits)

text \<open>
  Claim C5. The string \<^verbatim>\<open>"$171.95"\<close> and the number \<open>188\<close> normalize to the numbers
  \<open>171.95\<close> and \<open>188\<close> (the lemmas above). The structured price
  \<^verbatim>\<open>{current: 50, original: 75, currency: "EUR"}\<close> keeps its current and original
  price, but the transform reads the currency from the top-level \<^verbatim>\<open>currency\<close> field of
  the product and never from the price object: with no top-level currency the
  normalized price carries \<^verbatim>\<open>"USD"\<close>, not \<^verbatim>\<open>"EUR"\<close>.
\<close>

theorem normalizePrice_object_loses_currency:
  "map_option price (productDataSchema (emptyRaw\<lparr>r_asin := Some ''B000000000'',
       r_price := Some (PriceObj \<lparr>ps_current = 50, ps_original = Some 75, ps_currency = Some ''EUR''\<rparr>)\<rparr>))
     = Some (Some \<lparr>current = Fin 50, original = Some (Fin 75), currency = ''USD''\<rparr>)"
  by (simp add: productDataSchema_def hasValidAsinField_def truthy_str_def trim_def isSpace_def normalizePrice_def extractCurrent_def extractOriginal_def emptyRaw_def
        str_or_else_def truthy_num_def)

section \<open>Review schema: the rating field\<close>

text \<open>
  A rating that arrives as the number \<open>7\<close> is not clamped: the number branch of the
  union demands \<open>1 \<le> n \<le> 5\<close>, the string branch does not take a number, and the
  review fails validation at this layer.
\<close>

theorem reviewDataSchema_number_rejected: "reviewDataSchema (rawReviewWith (Num 7)) = None"
  by (simp add: reviewDataSchema_def rawReviewWith_def ratingField_def)

lemma clamp_range: "n \<noteq> NaN \<Longrightarrow> ratingInRange (Math_max (Fin 1) (Math_min (Fin 5) n))"
  by (cases n) (auto simp: ratingInRange_def Math_max_def Math_min_def js_le_def)

text \<open>
  Claim C6, as amended. A rating that arrives as a string is never rejected: a string
  that does not parse becomes \<open>0\<close>, any other is clamped into \<open>[1,5]\<close> after
  parsing. A rating that arrives as a number is accepted unchanged when it lies in
  \<open>[1,5]\<close> and makes the review fail validation otherwise.
\<close>

theorem reviewDataSchema_rating:
  assumes "rr_rating d = Some v"
  shows "case v of
           Str s \<Rightarrow>
             (\<exists>r. reviewDataSchema d = Some r
                \<and> (if parseFloat s = NaN then rv_rating r = Fin 0
                   else ratingInRange (rv_rating r)
                      \<and> rv_rating r = (if js_lt (parseFloat s) (Fin 1) then Fin 1
                                        else if js_gt (parseFloat s) (Fin 5) then Fin 5
                                        else parseFloat s)))
         | Num n \<Rightarrow>
             (if 1 \<le> n \<and> n \<le> 5
              then (\<exists>r. reviewDataSchema d = Some r \<and> rv_rating r = Fin n)
              else reviewDataSchema d = None)"
proof (cases v)
  case (Str s)
  show ?thesis
  proof (cases "parseFloat s = NaN")
    case True
    with Str assms show ?thesis
      by (simp add: reviewDataSchema_def ratingField_def isNaN_def)
  next
    case False
    have "Math_max (Fin 1) (Math_min (Fin 5) (parseFloat s))
            = (if js_lt (parseFloat s) (Fin 1) then Fin 1
               else if js_gt (parseFloat s) (Fin 5) then Fin 5 else parseFloat s)"
      using False by (cases "parseFloat s") (auto simp: Math_max_def Math_min_def js_gt_def)
    with False Str assms clamp_range[OF False] show ?thesis
      by (auto simp: reviewDataSchema_def ratingField_def isNaN_def split: if_splits)
  qed
next
  case (Num n)
  with assms show ?thesis
    by (simp add: reviewDataSchema_def ratingField_def)
qed

theorem reviewDataSchema_rating_witness:
  "map_option rv_rating (reviewDataSchema (rawReviewWith (Str ''7.5''))) = Some (Fin 5)"
proof -
  have p: "parseFloat ''7.5'' = Fin 7.5" by code_simp
  have h: "rr_rating (rawReviewWith (Str ''7.5'')) = Some (Str ''7.5'')"
    by (simp add: rawReviewWith_def)
  from reviewDataSchema_rating[OF h] p show ?thesis
    by (auto simp: js_gt_def)
qed

section \<open>Data processor: review filtering\<close>

lemma dropWhile_all_Nil: "(\<forall>x\<in>set (dropWhile P xs). P x) \<Longrightarrow> dropWhile P xs = []"
  by (metis hd_dropWhile list.set_sel(1))

lemma trim_Nil_iff: "trim t = [] \<longleftrightarrow> list_all isSpace t"
proof
  assume "trim t = []"
  then have "\<forall>x\<in>set (dropWhile isSpace t). isSpace x"
    by (simp add: trim_def)
  then have "dropWhile isSpace t = []" by (rule dropWhile_all_Nil)
  then show "list_all isSpace t" by (simp add: list_all_iff)
next
  assume "list_all isSpace t"
  then show "trim t = []" by (auto simp: trim_def list_all_iff dest: set_dropWhileD)
qed

lemma keepReview_iff: "keepReview r = (\<not> excludedReview r)"
  unfolding keepReview_def excludedReview_def ratingInRange_def blankText_def truthy_str_def truthy_num_def js_le_def js_gt_def
  by (cases "rv_rating r") (auto simp: trim_Nil_iff)

lemma keepReview_fun: "keepReview = (\<lambda>r. \<not> excludedReview r)"
  by (rule ext) (rule keepReview_iff)

lemma processOne_keep:
  "keepReview r \<Longrightarrow>
     \<exists>e. processOneReview rt k p r = Some e \<and> pr_rating e = rv_rating r
         \<and> pr_text e = normalizeText (rv_text r) \<and> pr_productId e = p"
  unfolding keepReview_def processOneReview_def validateRating_def
  by (auto split: if_splits)

lemma processReviews_eq:
  "processReviews rt k rd p =
     map (\<lambda>(i, r). the (processOneReview rt (k + i) p r))
       (zip [0..<length (filter keepReview (rs_reviews rd))] (filter keepReview (rs_reviews rd)))"
proof -
  let ?kept = "filter keepReview (rs_reviews rd)"
  have "\<forall>x \<in> set (zip [0..<length ?kept] ?kept). (case x of (i, r) \<Rightarrow> processOneReview rt (k + i) p r) \<noteq> None"
  proof
    fix x assume x: "x \<in> set (zip [0..<length ?kept] ?kept)"
    obtain i r where ir: "x = (i, r)" by (cases x)
    with x have "r \<in> set ?kept" by (auto dest: set_zip_rightD)
    then have "keepReview r" by simp
    from processOne_keep[OF this, of rt "k + i" p] ir
    show "(case x of (i, r) \<Rightarrow> processOneReview rt (k + i) p r) \<noteq> None" by auto
  qed
  then have "filter (\<lambda>r. r \<noteq> None) (map (\<lambda>(i, r). processOneReview rt (k + i) p r) (zip [0..<length ?kept] ?kept))
      = map (\<lambda>(i, r). processOneReview rt (k + i) p r) (zip [0..<length ?kept] ?kept)"
    by (simp add: filter_id_conv)
  then show ?thesis
    unfolding processReviews_def Let_def
    by (simp add: case_prod_unfold comp_def)
qed

lemma processReviews_nth:
  assumes "i < length (filter keepReview (rs_reviews rd))"
  shows "processReviews rt k rd p ! i
           = the (processOneReview rt (k + i) p (filter keepReview (rs_reviews rd) ! i))"
  using assms by (simp add: processReviews_eq)

lemma processReviews_length:
  "length (processReviews rt k rd p) = length (filter keepReview (rs_reviews rd))"
  by (simp add: processReviews_eq)

text \<open>
  Claim C7. \<^verbatim>\<open>processReviews\<close> drops every review whose rating is outside \<open>[1,5]\<close> or
  whose text is empty or white space only, and keeps every other review, in order:
  the output has as many entries as the input minus the excluded ones, and its
  ratings and (normalized) texts are those of the reviews that are not excluded.
\<close>

theorem processReviews_excludes_invalid:
  "length (processReviews rt k rd p)
     = length (rs_reviews rd) - length (filter excludedReview (rs_reviews rd))
   \<and> map pr_rating (processReviews rt k rd p)
     = map rv_rating (filter (\<lambda>r. \<not> excludedReview r) (rs_reviews rd))
   \<and> map pr_text (processReviews rt k rd p)
     = map (\<lambda>r. normalizeText (rv_text r)) (filter (\<lambda>r. \<not> excludedReview r) (rs_reviews rd))"
proof -
  let ?kept = "filter keepReview (rs_reviews rd)"
  have len: "length (processReviews rt k rd p) = length ?kept"
    by (rule processReviews_length)
  have "length (filter excludedReview (rs_reviews rd)) + length ?kept = length (rs_reviews rd)"
    unfolding keepReview_fun by (rule sum_length_filter_compl)
  with len have c1: "length (processReviews rt k rd p)
     = length (rs_reviews rd) - length (filter excludedReview (rs_reviews rd))" by simp
  have el: "pr_rating (processReviews rt k rd p ! i) = rv_rating (?kept ! i)
          \<and> pr_text (processReviews rt k rd p ! i) = normalizeText (rv_text (?kept ! i))"
    if "i < length ?kept" for i
  proof -
    from that have "?kept ! i \<in> set ?kept" by (rule nth_mem)
    then have "keepReview (?kept ! i)" by simp
    from processOne_keep[OF this, of rt "k + i" p] processReviews_nth[OF that, of rt k p]
    show ?thesis by auto
  qed
  have c2: "map pr_rating (processReviews rt k rd p) = map rv_rating ?kept"
    by (rule nth_equalityI) (simp_all add: len el)
  have c3: "map pr_text (processReviews rt k rd p) = map (\<lambda>r. normalizeText (rv_text r)) ?kept"
    by (rule nth_equalityI) (simp_all add: len el)
  from c1 c2 c3 show ?thesis unfolding keepReview_fun by simp
qed

theorem processReviews_excludes_invalid_witness:
  "length (processReviews sampleRuntime 0
      \<lparr>rs_reviews = [sampleReview 5 ''Great'', sampleReview 7 ''Too good'', sampleReview 3 ''  '',
                     sampleReview 0 ''bad'', sampleReview 4 ''ok''],
       rs_averageRating = Fin 4, rs_totalReviews = Fin 5\<rparr> ''p1'') = 2"
  using processReviews_excludes_invalid[of sampleRuntime 0
      "\<lparr>rs_reviews = [sampleReview 5 ''Great'', sampleReview 7 ''Too good'', sampleReview 3 ''  '',
                     sampleReview 0 ''bad'', sampleReview 4 ''ok''],
       rs_averageRating = Fin 4, rs_totalReviews = Fin 5\<rparr>" "''p1''"]
  by (simp add: excludedReview_def ratingInRange_def blankText_def sampleReview_def js_le_def isSpace_def)

section \<open>Usage limiter: the month key\<close>

lemma getCurrentUsage_month: "au_month (fst (getCurrentUsage rt tr now w)) = currentMonth tr"
proof (cases "selectFirst (\<lambda>u. au_month u = currentMonth tr) (apiUsage w)")
  case Nil
  then show ?thesis by (simp add: getCurrentUsage_def Let_def)
next
  case (Cons u us)
  then have "u \<in> set (filter (\<lambda>u. au_month u = currentMonth tr) (apiUsage w))"
    unfolding selectFirst_def by (metis in_set_takeD list.set_intros(1))
  with Cons show ?thesis by (simp add: getCurrentUsage_def)
qed

lemma usage_month_cached:
  "us_month (fst (getUsageStats rt (newUsageTracker n t0) t1 w)) = getCurrentMonth t0"
  using getCurrentUsage_month[of rt "newUsageTracker n t0" t1 w]
  by (auto simp: getUsageStats_def newUsageTracker_def split: prod.splits)

text \<open>
  Claim C8 says that every call computes the month from the wall clock. The source
  computes it once, in the constructor, and every later call reads the stored
  field: a tracker built in January 2026 and asked for its statistics in February
  2026 answers for the key \<^verbatim>\<open>2026-01\<close>, while the wall clock of the call gives
  \<^verbatim>\<open>2026-02\<close>.
\<close>

theorem usage_key_stale_after_month_change:
  "us_month (fst (getUsageStats rt (newUsageTracker n \<lparr>fullYear = 2026, monthIndex = 0\<rparr>)
                     \<lparr>fullYear = 2026, monthIndex = 1\<rparr> w)) = ''2026-01''
   \<and> getCurrentMonth \<lparr>fullYear = 2026, monthIndex = 1\<rparr> = ''2026-02''"
proof -
  have a: "getCurrentMonth \<lparr>fullYear = 2026, monthIndex = 0\<rparr> = ''2026-01''" by code_simp
  have b: "getCurrentMonth \<lparr>fullYear = 2026, monthIndex = 1\<rparr> = ''2026-02''" by code_simp
  from usage_month_cached[of rt n "\<lparr>fullYear = 2026, monthIndex = 0\<rparr>" "\<lparr>fullYear = 2026, monthIndex = 1\<rparr>" w] a b
  show ?thesis by simp
qed

section \<open>Scheduler: cancelling a scheduled job\<close>

lemma scrapeJobs_removeJob: "scrapeJobs (removeJob jobId w) = scrapeJobs w"
  by (simp add: removeJob_def split: list.splits)

text \<open>
  Claim C9. The update of \<^verbatim>\<open>cancelScheduledJob(jobId)\<close> is keyed by status, not by the
  job id: every row of \<^verbatim>\<open>scrape_jobs\<close> that is pending becomes failed with the error
  \<^verbatim>\<open>Cancelled by user\<close>, every other row stays as it is (the row of \<open>jobId\<close> among
  them when it is not pending), and the resulting table is the same for any two
  job ids.
\<close>

theorem cancelScheduledJob_blanket_update:
  "length (scrapeJobs (cancelScheduledJob now jobId w)) = length (scrapeJobs w)
   \<and> (\<forall>i < length (scrapeJobs w).
        scrapeJobs (cancelScheduledJob now jobId w) ! i
          = (if job_state (scrapeJobs w ! i) = Pending
             then (scrapeJobs w ! i)\<lparr>job_state := Failed, job_error := Some ''Cancelled by user'',
                                     job_completedAt := Some now\<rparr>
             else scrapeJobs w ! i))
   \<and> scrapeJobs (cancelScheduledJob now jobId w) = scrapeJobs (cancelScheduledJob now otherId w)"
  by (simp add: cancelScheduledJob_def Let_def scrapeJobs_removeJob updateWhere_def cancelRow_def)

theorem cancelScheduledJob_blanket_update_witness:
  "scrapeJobs (cancelScheduledJob 7 ''job-2''
      (emptyWorld\<lparr>scrapeJobs := [sampleJob ''job-1'' Pending, sampleJob ''job-2'' Running]\<rparr>))
     = [(sampleJob ''job-1'' Pending)\<lparr>job_state := Failed, job_error := Some ''Cancelled by user'',
                                       job_completedAt := Some 7\<rparr>,
        sampleJob ''job-2'' Running]"
proof -
  let ?w = "emptyWorld\<lparr>scrapeJobs := [sampleJob ''job-1'' Pending, sampleJob ''job-2'' Running]\<rparr>"
  from cancelScheduledJob_blanket_update[of 7 "''job-2''" ?w "''job-2''"]
  have len: "length (scrapeJobs (cancelScheduledJob 7 ''job-2'' ?w)) = 2"
    and el: "\<forall>i<2. scrapeJobs (cancelScheduledJob 7 ''job-2'' ?w) ! i
          = (if job_state ([sampleJob ''job-1'' Pending, sampleJob ''job-2'' Running] ! i) = Pending
             then ([sampleJob ''job-1'' Pending, sampleJob ''job-2'' Running] ! i)\<lparr>job_state := Failed, job_error := Some ''Cancelled by user'',
                                     job_completedAt := Some 7\<rparr>
             else [sampleJob ''job-1'' Pending, sampleJob ''job-2'' Running] ! i)"
    by simp_all
  from el have e0: "scrapeJobs (cancelScheduledJob 7 ''job-2'' ?w) ! 0
       = (sampleJob ''job-1'' Pending)\<lparr>job_state := Failed, job_error := Some ''Cancelled by user'', job_completedAt := Some 7\<rparr>"
    by (simp add: sampleJob_def)
  from el have "scrapeJobs (cancelScheduledJob 7 ''job-2'' ?w) ! 1
          = (if job_state ([sampleJob ''job-1'' Pending, sampleJob ''job-2'' Running] ! 1) = Pending
             then ([sampleJob ''job-1'' Pending, sampleJob ''job-2'' Running] ! 1)\<lparr>job_state := Failed, job_error := Some ''Cancelled by user'',
                                     job_completedAt := Some 7\<rparr>
             else [sampleJob ''job-1'' Pending, sampleJob ''job-2'' Running] ! 1)"
    by (simp del: nth_Cons_numeral)
  then have e1: "scrapeJobs (cancelScheduledJob 7 ''job-2'' ?w) ! 1 = sampleJob ''job-2'' Running"
    by (simp add: sampleJob_def)
  show ?thesis
    by (rule nth_equalityI) (use len e0 e1 in \<open>auto simp: less_Suc_eq numeral_2_eq_2\<close>)
qed

section \<open>Product schema: the price fallback is chosen by presence\<close>

text \<open>
  Claim C10. When the \<^verbatim>\<open>pricing\<close> field is present and does not parse to a number, the
  schema extracts no current price and builds no price object, whatever the
  \<^verbatim>\<open>price\<close> and \<^verbatim>\<open>currentPrice\<close> fields hold; the normalized product has no price and
  \<^verbatim>\<open>processPrice\<close> returns none.
\<close>

theorem pricing_presence_blocks_price:
  assumes "r_pricing d = Some p" and "parsePriceString p = None" and "hasValidAsinField d"
  shows "\<exists>pd. productDataSchema d = Some pd \<and> price pd = None \<and> processPrice rt k pd pid = None"
  using assms
  by (simp add: productDataSchema_def normalizePrice_def extractCurrent_def processPrice_def)

theorem pricing_presence_blocks_price_witness:
  "map_option price (productDataSchema (emptyRaw\<lparr>r_asin := Some ''B08N5WRWNW'',
       r_price := Some (PriceNum 188), r_pricing := Some (Str ''N/A'')\<rparr>)) = Some None"
proof -
  let ?d = "emptyRaw\<lparr>r_asin := Some ''B08N5WRWNW'', r_price := Some (PriceNum 188), r_pricing := Some (Str ''N/A'')\<rparr>"
  have a: "r_pricing ?d = Some (Str ''N/A'')" by simp
  have b: "parsePriceString (Str ''N/A'') = None" by code_simp
  have c: "hasValidAsinField ?d" by (simp add: hasValidAsinField_def truthy_str_def trim_def isSpace_def emptyRaw_def)
  from pricing_presence_blocks_price[OF a b c, of sampleRuntime 0 "''p1''"] show ?thesis by auto
qed

end
